theory Spec2Isabelle
  imports Complex_Main "HOL-Library.Word" "HOL-Library.Char_ord" "HOL-Library.List_Lexorder"
    "HOL-Library.Option_ord"
begin

section \<open>Go values\<close>

text \<open>
  Go's \<open>int\<close> (64 bit on the platforms the server is built for) and \<open>int64\<close> are
  64-bit words read as two's complement; subtraction wraps.
\<close>

type_synonym int64 = "64 word"

text \<open>
  \<open>float64\<close>: a finite value is carried as the exact real it stands for (rounding to
  53 bits is not modelled), the non-finite results of IEEE 754 arithmetic are explicit, so
  that a division by zero shows in the result instead of vanishing into HOL's \<open>x / 0 = 0\<close>.
\<close>

datatype float64 = Fin real | PosInf | NegInf | NaN

definition float64_of_int :: "int64 \<Rightarrow> float64" where
  "float64_of_int n = Fin (of_int (sint n))"

fun fdiv :: "float64 \<Rightarrow> float64 \<Rightarrow> float64" where
  "fdiv (Fin a) (Fin b) =
     (if b = 0 then (if a = 0 then NaN else if 0 < a then PosInf else NegInf)
      else Fin (a / b))"
| "fdiv (Fin a) PosInf = Fin 0"
| "fdiv (Fin a) NegInf = Fin 0"
| "fdiv PosInf (Fin b) = (if 0 \<le> b then PosInf else NegInf)"
| "fdiv NegInf (Fin b) = (if 0 \<le> b then NegInf else PosInf)"
| "fdiv _ _ = NaN"

fun fmul :: "float64 \<Rightarrow> float64 \<Rightarrow> float64" where
  "fmul (Fin a) (Fin b) = Fin (a * b)"
| "fmul PosInf (Fin b) = (if b = 0 then NaN else if 0 < b then PosInf else NegInf)"
| "fmul NegInf (Fin b) = (if b = 0 then NaN else if 0 < b then NegInf else PosInf)"
| "fmul (Fin a) PosInf = (if a = 0 then NaN else if 0 < a then PosInf else NegInf)"
| "fmul (Fin a) NegInf = (if a = 0 then NaN else if 0 < a then NegInf else PosInf)"
| "fmul PosInf PosInf = PosInf"
| "fmul NegInf NegInf = PosInf"
| "fmul PosInf NegInf = NegInf"
| "fmul NegInf PosInf = NegInf"
| "fmul _ _ = NaN"

text \<open>Go's \<open>x < y\<close> on \<open>float64\<close>: false as soon as one side is NaN.\<close>

fun fless :: "float64 \<Rightarrow> float64 \<Rightarrow> bool" where
  "fless (Fin a) (Fin b) = (a < b)"
| "fless NegInf (Fin b) = True"
| "fless NegInf PosInf = True"
| "fless (Fin a) PosInf = True"
| "fless _ _ = False"

fun is_finite :: "float64 \<Rightarrow> bool" where
  "is_finite (Fin a) = True"
| "is_finite _ = False"

section \<open>Change, trend and rates (api package)\<close>

text \<open>\<open>calculateChange\<close> of the global dashboard (dashboard handlers, lines 88-103).\<close>

definition calculateChange :: "int64 \<Rightarrow> int64 \<Rightarrow> float64 \<times> string" where
  "calculateChange current previous =
     (if previous = 0 then
        (if current = 0 then (Fin 0, ''neutral'') else (Fin 100, ''up''))
      else
        (let change = fmul (fdiv (float64_of_int (current - previous)) (float64_of_int previous))
                           (Fin 100);
             trend = (if fless (Fin 0) change then ''up''
                      else if fless change (Fin 0) then ''down''
                      else ''neutral'')
         in (change, trend)))"

text \<open>\<open>calcCompChange\<close> of the component statistics (components.go, lines 248-263).\<close>

definition calcCompChange :: "int64 \<Rightarrow> int64 \<Rightarrow> float64 \<times> string" where
  "calcCompChange cur prev =
     (if prev = 0 then
        (if cur = 0 then (Fin 0, ''neutral'') else (Fin 100, ''up''))
      else
        (let change = fmul (fdiv (float64_of_int (cur - prev)) (float64_of_int prev)) (Fin 100);
             trend = (if fless (Fin 0) change then ''up''
                      else if fless change (Fin 0) then ''down''
                      else ''neutral'')
         in (change, trend)))"

text \<open>The \<open>calcRate\<close> closure of \<open>GetDashboardData\<close> (lines 198-203).\<close>

definition dashboard_calcRate :: "int64 \<Rightarrow> int64 \<Rightarrow> float64" where
  "dashboard_calcRate num den =
     (if den = 0 then Fin 0
      else fmul (fdiv (float64_of_int num) (float64_of_int den)) (Fin 100))"

text \<open>The \<open>calcRate\<close> closure of \<open>GetComponentStats\<close> (components.go, lines 386-391).\<close>

definition component_calcRate :: "int64 \<Rightarrow> int64 \<Rightarrow> float64" where
  "component_calcRate numerator denominator =
     (if denominator = 0 then Fin 0
      else fmul (fdiv (float64_of_int numerator) (float64_of_int denominator)) (Fin 100))"

text \<open>
  The same quotient without the guard, for comparison: what the rate would be if the
  handlers divided directly.
\<close>

definition unguarded_rate :: "int64 \<Rightarrow> int64 \<Rightarrow> float64" where
  "unguarded_rate num den = fmul (fdiv (float64_of_int num) (float64_of_int den)) (Fin 100)"

text \<open>
  The rates of one period, as both handlers compute them: the fake-alarm count and the
  handled count of the period, each over the period's total
  (\<open>currFakeRate\<close>, \<open>currHandlingRate\<close> and their \<open>prev\<close> twins).
\<close>

definition dashboard_period_rates :: "int64 \<Rightarrow> int64 \<Rightarrow> int64 \<Rightarrow> float64 \<times> float64" where
  "dashboard_period_rates fake handled totalCount =
     (dashboard_calcRate fake totalCount, dashboard_calcRate handled totalCount)"

definition component_period_rates :: "int64 \<Rightarrow> int64 \<Rightarrow> int64 \<Rightarrow> float64 \<times> float64" where
  "component_period_rates fake handled totalCount =
     (component_calcRate fake totalCount, component_calcRate handled totalCount)"

text \<open>
  The change/trend rule in the words of the specification, on mathematical integers:
  previous = 0 gives 0/neutral when current = 0 and 100/up otherwise; else the change is
  (current - previous) / previous * 100 and the trend is the sign of the change.
\<close>

definition spec_change_rule :: "int \<Rightarrow> int \<Rightarrow> float64 \<times> string" where
  "spec_change_rule current previous =
     (if previous = 0 \<and> current = 0 then (Fin 0, ''neutral'')
      else if previous = 0 then (Fin 100, ''up'')
      else (Fin ((of_int current - of_int previous) / of_int previous * 100),
            if 0 < (of_int current - of_int previous) / (of_int previous :: real) * 100 then ''up''
            else if (of_int current - of_int previous) / (of_int previous :: real) * 100 < 0
            then ''down''
            else ''neutral''))"

section \<open>Strings (Go's \<open>strings\<close> package)\<close>

text \<open>
  Strings are byte sequences. \<open>ascii_lower\<close> folds the 26 ASCII capitals and leaves every
  other byte alone: this is the case folding of SQLite's \<open>LIKE\<close>, and what
  \<open>strings.ToLower\<close> does to a string of ASCII bytes.
\<close>

definition to_lower_char :: "char \<Rightarrow> char" where
  "to_lower_char c =
     (case map_of (zip ''ABCDEFGHIJKLMNOPQRSTUVWXYZ'' ''abcdefghijklmnopqrstuvwxyz'') c of
        Some l \<Rightarrow> l
      | None \<Rightarrow> c)"

definition ascii_lower :: "string \<Rightarrow> string" where
  "ascii_lower s = map to_lower_char s"

definition is_ascii :: "string \<Rightarrow> bool" where
  "is_ascii s = list_all (\<lambda>c. c < CHR 0x80) s"

text \<open>
  \<open>strings.ToLower\<close>, as the library is written: a string whose bytes are all below
  \<open>0x80\<close> is folded bytewise; any other string goes through
  \<open>strings.Map(unicode.ToLower, s)\<close>, which decodes UTF-8 and lower-cases by the Unicode
  tables (so U+0130 becomes \<open>i\<close>). That second path is the library's and is taken as
  the parameter \<open>unicodeLower\<close>.
\<close>

definition strings_ToLower :: "(string \<Rightarrow> string) \<Rightarrow> string \<Rightarrow> string" where
  "strings_ToLower unicodeLower s = (if is_ascii s then ascii_lower s else unicodeLower s)"

fun strings_HasPrefix :: "string \<Rightarrow> string \<Rightarrow> bool" where
  "strings_HasPrefix s [] = True"
| "strings_HasPrefix [] (p # ps) = False"
| "strings_HasPrefix (c # cs) (p # ps) = (c = p \<and> strings_HasPrefix cs ps)"

fun strings_Contains :: "string \<Rightarrow> string \<Rightarrow> bool" where
  "strings_Contains [] substr = (substr = [])"
| "strings_Contains (c # cs) substr =
     (strings_HasPrefix (c # cs) substr \<or> strings_Contains cs substr)"

definition strings_TrimSuffix :: "string \<Rightarrow> string \<Rightarrow> string" where
  "strings_TrimSuffix s suffix =
     (if length suffix \<le> length s \<and> drop (length s - length suffix) s = suffix
      then take (length s - length suffix) s else s)"

section \<open>Alert classification (data_updater.go)\<close>

text \<open>\<open>isAlert\<close> (lines 331-341): both texts are lower-cased, then four tests.\<close>

definition isAlert :: "(string \<Rightarrow> string) \<Rightarrow> string \<Rightarrow> string \<Rightarrow> bool" where
  "isAlert unicodeLower description title =
     (let description = strings_ToLower unicodeLower description;
          title = strings_ToLower unicodeLower title
      in strings_Contains description ''alert'' \<or>
         strings_Contains title ''alert'' \<or>
         strings_Contains description ''firing'' \<or>
         strings_Contains description ''prometheus'')"

text \<open>
  Case-insensitive containment of a lower-case keyword: the keyword occurs in the text
  as Go lower-cases it.
\<close>

definition contains_lowered :: "(string \<Rightarrow> string) \<Rightarrow> string \<Rightarrow> string \<Rightarrow> bool" where
  "contains_lowered unicodeLower s kw \<longleftrightarrow>
     (\<exists>pre post. strings_ToLower unicodeLower s = pre @ kw @ post)"

text \<open>
  The same on ASCII, without reference to any lowering of the whole text: some stretch
  of the text equals the keyword up to the case of the ASCII letters.
\<close>

definition contains_ci :: "string \<Rightarrow> string \<Rightarrow> bool" where
  "contains_ci s kw \<longleftrightarrow>
     (\<exists>pre mid post. s = pre @ mid @ post \<and> ascii_lower mid = ascii_lower kw)"

text \<open>
  The alert flag as the specification words it: description or title contains one of the
  three keywords.
\<close>

definition spec_alert_flag :: "(string \<Rightarrow> string) \<Rightarrow> string \<Rightarrow> string \<Rightarrow> bool" where
  "spec_alert_flag unicodeLower description title \<longleftrightarrow>
     contains_lowered unicodeLower description ''alert''
     \<or> contains_lowered unicodeLower title ''alert''
     \<or> contains_lowered unicodeLower description ''firing''
     \<or> contains_lowered unicodeLower title ''firing''
     \<or> contains_lowered unicodeLower description ''prometheus''
     \<or> contains_lowered unicodeLower title ''prometheus''"

section \<open>Paginated fetch (jira_client.go)\<close>

text \<open>
  One call of \<open>SearchV2JQL\<close> either fails or returns a page of issues with the
  \<open>NextPageToken\<close> of the response. The tracker is a function of the number of the
  request (1 for the first page), the page size and the token sent, so that every
  sequence of responses, also one that changes between requests, is covered.
\<close>

datatype 'a search_reply = SearchFailed string | SearchPage "'a list" string

datatype fetch_error = JiraSearchError nat string

definition maxPages :: nat where
  "maxPages = 500"

text \<open>
  The \<open>for\<close> loop of \<open>SearchAllIssues\<close> (lines 205-295) from the state
  (\<open>pageNum\<close>, \<open>nextPageToken\<close>, \<open>allIssues\<close>). The second component of the result
  counts the requests sent, which the source does not return; \<open>conv\<close> is the field-by-field
  conversion of one issue of the client library.
\<close>

function search_loop ::
  "(nat \<Rightarrow> int \<Rightarrow> string \<Rightarrow> 'a search_reply) \<Rightarrow> ('a \<Rightarrow> 'b) \<Rightarrow> int \<Rightarrow> nat \<Rightarrow> string \<Rightarrow> 'b list
     \<Rightarrow> (fetch_error + 'b list) \<times> nat" where
  "search_loop srv conv pageSize pageNum nextPageToken allIssues =
     (if Suc pageNum > maxPages then (Inr allIssues, 0)
      else
        (case srv (Suc pageNum) pageSize nextPageToken of
           SearchFailed err \<Rightarrow> (Inl (JiraSearchError (Suc pageNum) err), 1)
         | SearchPage issues respToken \<Rightarrow>
             (if respToken = [] then (Inr (allIssues @ map conv issues), 1)
              else if respToken = nextPageToken then (Inr (allIssues @ map conv issues), 1)
              else
                (case search_loop srv conv pageSize (Suc pageNum) respToken
                        (allIssues @ map conv issues) of
                   (res, n) \<Rightarrow> (res, Suc n)))))"
  by pat_completeness auto
termination
  by (relation "measure (\<lambda>(srv, conv, pageSize, pageNum, tok, acc). maxPages - pageNum)")
    (auto simp: maxPages_def)

declare search_loop.simps [simp del]

definition SearchAllIssues ::
  "(nat \<Rightarrow> int \<Rightarrow> string \<Rightarrow> 'a search_reply) \<Rightarrow> ('a \<Rightarrow> 'b) \<Rightarrow> int
     \<Rightarrow> (fetch_error + 'b list) \<times> nat" where
  "SearchAllIssues srv conv pageSize =
     search_loop srv conv (if pageSize \<le> 0 then 100 else pageSize) 0 [] []"

text \<open>
  Three trackers for the examples: one that repeats the token it is sent after the first
  page, one that always hands out a fresh token, one whose every page is the last.
\<close>

definition stuck_tracker :: "nat \<Rightarrow> int \<Rightarrow> string \<Rightarrow> nat search_reply" where
  "stuck_tracker n pageSize tok = SearchPage [n] (if tok = [] then ''t1'' else tok)"

definition endless_tracker :: "nat \<Rightarrow> int \<Rightarrow> string \<Rightarrow> nat search_reply" where
  "endless_tracker n pageSize tok = SearchPage [n] (CHR ''x'' # tok)"

definition final_tracker :: "nat \<Rightarrow> int \<Rightarrow> string \<Rightarrow> nat search_reply" where
  "final_tracker n pageSize tok = SearchPage [n] []"

section \<open>Name resolution (name_service.go)\<close>

record NameInfo =
  ni_Type :: string
  ni_ID :: string
  ni_Name :: string
  ni_TenantID :: string
  ni_TenantName :: string

text \<open>
  The outcome of one GET to the name service, in the order \<open>Resolve\<close> inspects it: the
  request fails, or a response with a status code arrives whose body cannot be read, is
  not JSON, or decodes to a \<open>nameApiResponse\<close> (success flag and data).
\<close>

datatype api_body = ReadFailed string | Malformed string | Decoded bool NameInfo

datatype api_reply = GetFailed string | Response nat api_body

datatype resolve_error =
  EmptyId | TransportError string | BadStatus nat | ReadError string | JsonError string
  | SuccessFalse

text \<open>
  The resolver's state: the cache, and the number of requests sent to the name service
  so far (kept for the statements below; the source has no such counter).
\<close>

record NameResolver =
  cache :: "string \<rightharpoonup> NameInfo"
  lookups :: nat

definition GetNameResolver :: NameResolver where
  "GetNameResolver = \<lparr>cache = Map.empty, lookups = 0\<rparr>"

fun all_digits :: "string \<Rightarrow> bool" where
  "all_digits [] = True"
| "all_digits (c # cs) = (if c < CHR ''0'' \<or> c > CHR ''9'' then False else all_digits cs)"

definition isNumeric :: "string \<Rightarrow> bool" where
  "isNumeric s = (if all_digits s then length s > 0 else False)"

definition empty_NameInfo :: NameInfo where
  "empty_NameInfo = \<lparr>ni_Type = [], ni_ID = [], ni_Name = [], ni_TenantID = [], ni_TenantName = []\<rparr>"

definition fallback_NameInfo :: "string \<Rightarrow> NameInfo" where
  "fallback_NameInfo ident = empty_NameInfo\<lparr>ni_ID := ident, ni_Name := ident\<rparr>"

text \<open>
  \<open>Resolve\<close> (lines 57-107). The name service is a function of the number of requests
  sent before and the id asked for.
\<close>

definition Resolve ::
  "(nat \<Rightarrow> string \<Rightarrow> api_reply) \<Rightarrow> NameResolver \<Rightarrow> string
     \<Rightarrow> (NameInfo \<times> resolve_error option) \<times> NameResolver" where
  "Resolve api nr ident =
     (if ident = [] then ((empty_NameInfo, Some EmptyId), nr)
      else if \<not> isNumeric ident then ((fallback_NameInfo ident, None), nr)
      else
        (case cache nr ident of
           Some info \<Rightarrow> ((info, None), nr)
         | None \<Rightarrow>
             (let nr' = nr\<lparr>lookups := Suc (lookups nr)\<rparr> in
              case api (lookups nr) ident of
                GetFailed err \<Rightarrow> ((fallback_NameInfo ident, Some (TransportError err)), nr')
              | Response status body \<Rightarrow>
                  (if status \<noteq> 200 then ((fallback_NameInfo ident, Some (BadStatus status)), nr')
                   else
                     (case body of
                        ReadFailed err \<Rightarrow> ((fallback_NameInfo ident, Some (ReadError err)), nr')
                      | Malformed err \<Rightarrow> ((fallback_NameInfo ident, Some (JsonError err)), nr')
                      | Decoded success data \<Rightarrow>
                          (if \<not> success then ((fallback_NameInfo ident, Some SuccessFalse), nr')
                           else ((data, None),
                                 nr'\<lparr>cache := (cache nr')(ident \<mapsto> data)\<rparr>)))))))"

text \<open>A run of calls of \<open>Resolve\<close>, results dropped, as the handlers issue them.\<close>

fun resolve_all :: "(nat \<Rightarrow> string \<Rightarrow> api_reply) \<Rightarrow> NameResolver \<Rightarrow> string list \<Rightarrow> NameResolver" where
  "resolve_all api nr [] = nr"
| "resolve_all api nr (i # is) = resolve_all api (snd (Resolve api nr i)) is"

text \<open>Two name services for the examples: one that is down, one that answers.\<close>

definition down_service :: "nat \<Rightarrow> string \<Rightarrow> api_reply" where
  "down_service n ident = GetFailed ''timeout''"

definition echo_service :: "nat \<Rightarrow> string \<Rightarrow> api_reply" where
  "echo_service n ident =
     Response 200 (Decoded True (empty_NameInfo\<lparr>ni_ID := ident, ni_Name := ''cluster-'' @ ident\<rparr>))"

section \<open>The store: tables and SQL values\<close>

text \<open>
  A nullable TEXT column is a \<open>string option\<close> with \<open>None\<close> for NULL; a condition
  evaluates in SQL's three-valued logic to \<open>Some True\<close>, \<open>Some False\<close> or \<open>None\<close>
  (unknown), and a \<open>WHERE\<close> clause keeps the rows whose condition is \<open>Some True\<close>.
\<close>

type_synonym sql_text = "string option"
type_synonym sql_bool = "bool option"

fun sql_and :: "sql_bool \<Rightarrow> sql_bool \<Rightarrow> sql_bool" where
  "sql_and (Some False) b = Some False"
| "sql_and a (Some False) = Some False"
| "sql_and (Some True) (Some True) = Some True"
| "sql_and a b = None"

fun sql_or :: "sql_bool \<Rightarrow> sql_bool \<Rightarrow> sql_bool" where
  "sql_or (Some True) b = Some True"
| "sql_or a (Some True) = Some True"
| "sql_or (Some False) (Some False) = Some False"
| "sql_or a b = None"

definition sql_not :: "sql_bool \<Rightarrow> sql_bool" where
  "sql_not a = map_option Not a"

text \<open>The conjunction of the fragments that a handler glues together with \<open>AND\<close>.\<close>

fun sql_all :: "sql_bool list \<Rightarrow> sql_bool" where
  "sql_all [] = Some True"
| "sql_all (c # cs) = sql_and c (sql_all cs)"

definition sql_eq :: "sql_text \<Rightarrow> string \<Rightarrow> sql_bool" where
  "sql_eq x lit = map_option (\<lambda>v. v = lit) x"

definition sql_ne :: "sql_text \<Rightarrow> string \<Rightarrow> sql_bool" where
  "sql_ne x lit = map_option (\<lambda>v. v \<noteq> lit) x"

definition sql_is_null :: "sql_text \<Rightarrow> sql_bool" where
  "sql_is_null x = Some (x = None)"

definition sql_is_not_null :: "sql_text \<Rightarrow> sql_bool" where
  "sql_is_not_null x = Some (x \<noteq> None)"

text \<open>
  SQLite's \<open>LIKE\<close>: \<open>%\<close> stands for any run of characters, \<open>_\<close> for any one
  character, every other pattern character matches itself up to ASCII case. The pattern
  is the first argument.
\<close>

fun like_match :: "string \<Rightarrow> string \<Rightarrow> bool" where
  "like_match [] s = (s = [])"
| "like_match (p # ps) [] = (p = CHR ''%'' \<and> like_match ps [])"
| "like_match (p # ps) (c # cs) =
     (if p = CHR ''%'' then like_match ps (c # cs) \<or> like_match (p # ps) cs
      else (p = CHR ''_'' \<or> to_lower_char p = to_lower_char c) \<and> like_match ps cs)"

definition sql_like :: "sql_text \<Rightarrow> string \<Rightarrow> sql_bool" where
  "sql_like x pat = map_option (like_match pat) x"

definition sql_not_like :: "sql_text \<Rightarrow> string \<Rightarrow> sql_bool" where
  "sql_not_like x pat = map_option (\<lambda>v. \<not> like_match pat v) x"

text \<open>\<open>REPLACE(X, Y, Z)\<close>: every occurrence of \<open>Y\<close> in \<open>X\<close>, left to right; an empty
  \<open>Y\<close> leaves \<open>X\<close> as it is.\<close>

function replace_all :: "string \<Rightarrow> string \<Rightarrow> string \<Rightarrow> string" where
  "replace_all [] pat rep = []"
| "replace_all (c # cs) pat rep =
     (if pat \<noteq> [] \<and> strings_HasPrefix (c # cs) pat
      then rep @ replace_all (drop (length pat) (c # cs)) pat rep
      else c # replace_all cs pat rep)"
  by pat_completeness auto
termination
  by (relation "measure (\<lambda>(s, pat, rep). length s)") auto

definition sql_replace :: "sql_text \<Rightarrow> string \<Rightarrow> string \<Rightarrow> sql_text" where
  "sql_replace x pat rep = map_option (\<lambda>v. replace_all v pat rep) x"

text \<open>\<open>X BETWEEN A AND B\<close> on TEXT with the default (bytewise) collation.\<close>

definition sql_between :: "sql_text \<Rightarrow> string \<Rightarrow> string \<Rightarrow> sql_bool" where
  "sql_between x a b = map_option (\<lambda>v. a \<le> v \<and> v \<le> b) x"

definition selected :: "sql_bool \<Rightarrow> bool" where
  "selected c = (c = Some True)"

text \<open>
  The \<open>issues\<close> table (the \<open>Issue\<close> model), each column under its name with
  the prefix \<open>c_\<close>: \<open>id\<close> is the primary key, the other columns are nullable;
  \<open>created_at\<close> is the column gorm adds for its own bookkeeping.
\<close>

record issue_row =
  c_id :: string
  c_title :: sql_text
  c_description :: sql_text
  c_created :: sql_text
  c_priority :: sql_text
  c_labels :: sql_text
  c_issue_type :: sql_text
  c_components :: sql_text
  c_project :: sql_text
  c_is_alert :: "bool option"
  c_alert_signature :: sql_text
  c_cluster_id :: sql_text
  c_tenant_id :: sql_text
  c_biz_type :: sql_text
  c_status :: sql_text
  c_is_subtask :: "bool option"
  c_stability_governance :: sql_text
  c_visibility :: sql_text
  c_component_name :: sql_text
  c_source_component :: sql_text
  c_alert_group :: sql_text
  c_created_at :: sql_text

text \<open>The \<open>muted_issues\<close> table (the \<open>MutedIssue\<close> model), primary key \<open>issue_id\<close>.\<close>

record muted_row =
  m_issue_id :: string
  m_reason :: string

record store =
  t_issues :: "issue_row list"
  t_muted_issues :: "muted_row list"

definition count_where :: "(issue_row \<Rightarrow> sql_bool) \<Rightarrow> issue_row list \<Rightarrow> nat" where
  "count_where cond rows = length (filter (\<lambda>r. selected (cond r)) rows)"


section \<open>Values spliced into a statement\<close>

text \<open>
  \<open>GetDashboardData\<close> and \<open>GetDashboardIssues\<close> splice values of the request into
  the text of their statements, between single quotes. A value without a single quote is
  read back by the database as that literal. A value with one ends the literal early and
  the rest of the value is read as SQL: the statement is then another one, which is not
  followed here (\<open>Altered\<close>).
\<close>

datatype 'a reading = Reads 'a | Altered

definition quote_free :: "string \<Rightarrow> bool" where
  "quote_free v \<longleftrightarrow> CHR 0x27 \<notin> set v"

definition spliced :: "string \<Rightarrow> 'a \<Rightarrow> 'a reading" where
  "spliced v x = (if quote_free v then Reads x else Altered)"

text \<open>The fragments that a handler glues together with \<open>AND\<close>, read one after the
  other, and their conjunction.\<close>

fun reads_all :: "'a reading list \<Rightarrow> 'a list reading" where
  "reads_all [] = Reads []"
| "reads_all (Altered # cs) = Altered"
| "reads_all (Reads c # cs) =
     (case reads_all cs of Reads xs \<Rightarrow> Reads (c # xs) | Altered \<Rightarrow> Altered)"

definition reads_and :: "('r \<Rightarrow> sql_bool) reading list \<Rightarrow> ('r \<Rightarrow> sql_bool) reading" where
  "reads_and cs =
     (case reads_all cs of
        Reads conds \<Rightarrow> Reads (\<lambda>r. sql_all (map (\<lambda>c. c r) conds))
      | Altered \<Rightarrow> Altered)"

section \<open>Component categories (components.go)\<close>

text \<open>\<open>getCategory\<close> (lines 115-129) on the category map as last loaded.\<close>

definition getCategory :: "(string \<rightharpoonup> string) \<Rightarrow> string \<Rightarrow> string" where
  "getCategory categoryMap name =
     (if name = ''Serverless'' then ''Serverless''
      else (case categoryMap name of Some cat \<Rightarrow> cat | None \<Rightarrow> ''Other''))"

text \<open>
  The predicate of the old-rules bucket, as both handlers spell it:
  \<^verbatim>\<open>(stability_governance = '' OR stability_governance IS NULL) AND (biz_type NOT LIKE '%nextgen%')\<close>.
\<close>

definition old_rules_condition :: "issue_row \<Rightarrow> sql_bool" where
  "old_rules_condition r =
     sql_and (sql_or (sql_eq (c_stability_governance r) []) (sql_is_null (c_stability_governance r)))
             (sql_not_like (c_biz_type r) ''%nextgen%'')"

definition is_alert_true :: "issue_row \<Rightarrow> sql_bool" where
  "is_alert_true r = map_option (\<lambda>b. b = True) (c_is_alert r)"

definition created_between :: "string \<Rightarrow> string \<Rightarrow> issue_row \<Rightarrow> sql_bool" where
  "created_between startDate endDate r =
     sql_between (sql_replace (c_created r) '' UTC'' []) startDate endDate"

section \<open>Component statistics (GetComponentStats, components.go)\<close>

text \<open>\<open>categoryCondition\<close> (lines 307-320), overridden for Serverless (line 347).\<close>

definition component_categoryCondition :: "string \<Rightarrow> string \<Rightarrow> issue_row \<Rightarrow> sql_bool" where
  "component_categoryCondition name categoryStr r =
     (if name = ''Serverless'' then
        sql_or (sql_like (c_biz_type r) ''%devtier%'') (sql_like (c_biz_type r) ''%TiDB Serverless%'')
      else if categoryStr = ''premium'' then sql_like (c_biz_type r) ''%nextgen%''
      else if categoryStr = ''essential'' then
        sql_or (sql_like (c_biz_type r) ''%devtier%'') (sql_like (c_biz_type r) ''%TiDB Serverless%'')
      else if categoryStr = ''dedicated'' then
        sql_all [sql_not_like (c_biz_type r) ''%nextgen%'',
                 sql_not_like (c_biz_type r) ''%devtier%'',
                 sql_not_like (c_biz_type r) ''%TiDB Serverless%'']
      else Some True)"

text \<open>\<open>stabilityCondition\<close> (lines 322-337).\<close>

definition component_stabilityCondition ::
  "(string \<rightharpoonup> string) \<Rightarrow> string \<Rightarrow> issue_row \<Rightarrow> sql_bool" where
  "component_stabilityCondition categoryMap name r =
     (if name = ''old-rules'' then old_rules_condition r
      else if getCategory categoryMap name \<noteq> ''Resilience''
              \<and> getCategory categoryMap name \<noteq> ''Serverless''
      then sql_not (old_rules_condition r)
      else Some True)"

text \<open>\<open>componentFilter\<close> (lines 339-353): the name between double quotes and \<open>%\<close>,
  or \<open>%\<close> alone for Serverless and old-rules.\<close>

definition component_componentFilter :: "string \<Rightarrow> string" where
  "component_componentFilter name =
     (if name = ''old-rules'' then ''%''
      else if name = ''Serverless'' then ''%''
      else ''%'' @ [CHR 0x22] @ name @ [CHR 0x22] @ ''%'')"

text \<open>\<open>envCondition\<close> (lines 355-365): markers looked for in the title.\<close>

definition component_envCondition :: "string \<Rightarrow> issue_row \<Rightarrow> sql_bool" where
  "component_envCondition envStr r =
     (if envStr = ''prod'' then
        sql_or (sql_like (c_title r) ''%[PROD]%'') (sql_like (c_title r) ''%PROD%'')
      else if envStr = ''non_prod'' then
        sql_or (sql_or (sql_like (c_title r) ''%[STAGING]%'') (sql_like (c_title r) ''%[STG]%''))
               (sql_like (c_title r) ''%STAGING%'')
      else Some True)"

text \<open>
  The \<open>WHERE\<close> clause shared by the counts of \<open>GetComponentStats\<close> (lines 370-381).
  \<open>clusterFilter\<close> is the condition returned by \<open>buildClusterFilterCondition\<close>, which
  is defined outside the files at hand.
\<close>

definition component_where ::
  "(issue_row \<Rightarrow> sql_bool) \<Rightarrow> (string \<rightharpoonup> string) \<Rightarrow> string \<Rightarrow> string \<Rightarrow> string \<Rightarrow> string \<Rightarrow> string
     \<Rightarrow> issue_row \<Rightarrow> sql_bool" where
  "component_where clusterFilter categoryMap name envStr categoryStr startDate endDate r =
     sql_all [is_alert_true r,
              sql_like (c_components r) (component_componentFilter name),
              component_envCondition envStr r,
              component_categoryCondition name categoryStr r,
              component_stabilityCondition categoryMap name r,
              clusterFilter r,
              created_between startDate endDate r]"

definition GetComponentStats_total ::
  "(issue_row \<Rightarrow> sql_bool) \<Rightarrow> (string \<rightharpoonup> string) \<Rightarrow> store \<Rightarrow> string \<Rightarrow> string \<Rightarrow> string
     \<Rightarrow> string \<Rightarrow> string \<Rightarrow> nat" where
  "GetComponentStats_total clusterFilter categoryMap db name envStr categoryStr startDate endDate =
     count_where (component_where clusterFilter categoryMap name envStr categoryStr startDate endDate)
       (t_issues db)"

text \<open>
  The environment filter of the component statistics as the specification words it: the
  same markers, looked for in the alert signature instead of the title; and the
  \<open>WHERE\<close> clause with this filter in the place of \<open>envCondition\<close>.
\<close>

definition signature_envCondition :: "string \<Rightarrow> issue_row \<Rightarrow> sql_bool" where
  "signature_envCondition envStr r =
     (if envStr = ''prod'' then
        sql_or (sql_like (c_alert_signature r) ''%[PROD]%'')
               (sql_like (c_alert_signature r) ''%PROD%'')
      else if envStr = ''non_prod'' then
        sql_or (sql_or (sql_like (c_alert_signature r) ''%[STAGING]%'')
                       (sql_like (c_alert_signature r) ''%[STG]%''))
               (sql_like (c_alert_signature r) ''%STAGING%'')
      else Some True)"


section \<open>Global dashboard (GetDashboardData)\<close>

text \<open>\<open>envCondition\<close> (lines 131-137): the marker is looked for in the alert signature.\<close>

definition dashboard_envCondition :: "string \<Rightarrow> issue_row \<Rightarrow> sql_bool" where
  "dashboard_envCondition envStr r =
     (if envStr = ''prod'' then sql_like (c_alert_signature r) ''[PROD]%''
      else if envStr = ''non_prod'' then sql_not_like (c_alert_signature r) ''[PROD]%''
      else Some True)"

text \<open>The query parameters \<open>component\<close>, \<open>tenant_id\<close>, \<open>signature\<close>, \<open>cluster_id\<close>;
  an empty string is an absent parameter.\<close>

record dashboard_filters =
  f_component :: string
  f_tenant_id :: string
  f_signature :: string
  f_cluster_id :: string

text \<open>\<open>filterCondition\<close> (lines 139-152), one spliced value in each fragment.\<close>

definition dashboard_filterCondition :: "dashboard_filters \<Rightarrow> (issue_row \<Rightarrow> sql_bool) reading" where
  "dashboard_filterCondition f =
     reads_and
       [if f_component f \<noteq> []
        then spliced (f_component f) (\<lambda>r. sql_like (c_components r) (''%'' @ f_component f @ ''%''))
        else Reads (\<lambda>r. Some True),
        if f_tenant_id f \<noteq> []
        then spliced (f_tenant_id f) (\<lambda>r. sql_eq (c_tenant_id r) (f_tenant_id f))
        else Reads (\<lambda>r. Some True),
        if f_signature f \<noteq> []
        then spliced (f_signature f) (\<lambda>r. sql_eq (c_alert_signature r) (f_signature f))
        else Reads (\<lambda>r. Some True),
        if f_cluster_id f \<noteq> []
        then spliced (f_cluster_id f) (\<lambda>r. sql_eq (c_cluster_id r) (f_cluster_id f))
        else Reads (\<lambda>r. Some True)]"

text \<open>\<open>queryBase\<close> of \<open>fetchStats\<close> (line 156).\<close>

definition dashboard_where ::
  "string \<Rightarrow> dashboard_filters \<Rightarrow> string \<Rightarrow> string \<Rightarrow> (issue_row \<Rightarrow> sql_bool) reading" where
  "dashboard_where envStr f startDate endDate =
     reads_and [Reads is_alert_true,
                Reads (dashboard_envCondition envStr),
                dashboard_filterCondition f,
                Reads (created_between startDate endDate)]"

text \<open>\<open>fetchStats\<close> (lines 154-171): total, prod, non-prod and critical counts.\<close>

definition fetchStats ::
  "store \<Rightarrow> string \<Rightarrow> dashboard_filters \<Rightarrow> string \<Rightarrow> string \<Rightarrow> (nat \<times> nat \<times> nat \<times> nat) reading" where
  "fetchStats db envStr f startDate endDate =
     (case dashboard_where envStr f startDate endDate of
        Altered \<Rightarrow> Altered
      | Reads cond \<Rightarrow>
          (let rows = filter (\<lambda>r. selected (cond r)) (t_issues db)
           in Reads (length rows,
                length (filter (\<lambda>r. selected (sql_like (c_alert_signature r) ''[PROD]%'')) rows),
                length (filter (\<lambda>r. selected (sql_not_like (c_alert_signature r) ''[PROD]%'')) rows),
                length (filter (\<lambda>r. selected (sql_eq (c_priority r) ''Critical'')) rows))))"

section \<open>Issue listing and muting (GetDashboardIssues, MuteIssue)\<close>

text \<open>\<open>strings.Split\<close> on a one-character separator and \<open>strings.TrimSpace\<close> (ASCII
  white space).\<close>

fun split_on :: "char \<Rightarrow> string \<Rightarrow> string list" where
  "split_on sep [] = [[]]"
| "split_on sep (c # cs) =
     (if c = sep then [] # split_on sep cs
      else (case split_on sep cs of [] \<Rightarrow> [[c]] | w # ws \<Rightarrow> (c # w) # ws))"

definition is_space :: "char \<Rightarrow> bool" where
  "is_space c = (c \<in> set [CHR '' '', CHR 0x09, CHR 0x0A, CHR 0x0B, CHR 0x0C, CHR 0x0D])"

definition strings_TrimSpace :: "string \<Rightarrow> string" where
  "strings_TrimSpace s = rev (dropWhile is_space (rev (dropWhile is_space s)))"

definition sql_in :: "sql_text \<Rightarrow> string list \<Rightarrow> sql_bool" where
  "sql_in x lits = map_option (\<lambda>v. v \<in> set lits) x"

record issues_query =
  q_env :: string
  q_component :: string
  q_tenant_id :: string
  q_signature :: string
  q_cluster_id :: string
  q_metric_type :: string
  q_category :: string
  q_priority :: string
  q_page :: int
  q_page_size :: int

text \<open>The component branch of \<open>filterCondition\<close> (lines 444-463); the name is spliced
  into the pattern of the last fragment (line 461).\<close>

definition issues_componentCondition ::
  "(string \<rightharpoonup> string) \<Rightarrow> string \<Rightarrow> (issue_row \<Rightarrow> sql_bool) reading" where
  "issues_componentCondition categoryMap componentFilter =
     (if componentFilter = [] then Reads (\<lambda>r. Some True)
      else if componentFilter = ''Serverless'' then Reads (\<lambda>r. Some True)
      else if componentFilter = ''old-rules'' then Reads old_rules_condition
      else
        spliced componentFilter (\<lambda>r.
          sql_and
            (if getCategory categoryMap componentFilter \<noteq> ''Resilience''
                \<and> getCategory categoryMap componentFilter \<noteq> ''Serverless''
             then sql_not (old_rules_condition r) else Some True)
            (sql_like (c_components r) (''%'' @ componentFilter @ ''%''))))"

text \<open>The filters on tenant, signature and cluster (lines 464-472), one spliced value
  each.\<close>

definition issues_tenantCondition :: "string \<Rightarrow> (issue_row \<Rightarrow> sql_bool) reading" where
  "issues_tenantCondition tenantFilter =
     (if tenantFilter \<noteq> [] then spliced tenantFilter (\<lambda>r. sql_eq (c_tenant_id r) tenantFilter)
      else Reads (\<lambda>r. Some True))"

definition issues_signatureCondition :: "string \<Rightarrow> (issue_row \<Rightarrow> sql_bool) reading" where
  "issues_signatureCondition signatureFilter =
     (if signatureFilter \<noteq> []
      then spliced signatureFilter (\<lambda>r. sql_eq (c_alert_signature r) signatureFilter)
      else Reads (\<lambda>r. Some True))"

definition issues_clusterCondition :: "string \<Rightarrow> (issue_row \<Rightarrow> sql_bool) reading" where
  "issues_clusterCondition clusterFilter =
     (if clusterFilter \<noteq> [] then spliced clusterFilter (\<lambda>r. sql_eq (c_cluster_id r) clusterFilter)
      else Reads (\<lambda>r. Some True))"

text \<open>The category in force (line 447 overrides it for Serverless) and its condition
  (lines 474-483).\<close>

definition issues_category :: "issues_query \<Rightarrow> string" where
  "issues_category q = (if q_component q = ''Serverless'' then ''essential'' else q_category q)"

definition issues_categoryCondition :: "string \<Rightarrow> issue_row \<Rightarrow> sql_bool" where
  "issues_categoryCondition category r =
     (if category = ''premium'' then sql_like (c_biz_type r) ''%nextgen%''
      else if category = ''essential'' then sql_like (c_biz_type r) ''%devtier%''
      else if category = ''dedicated'' then
        sql_and (sql_not_like (c_biz_type r) ''%nextgen%'')
                (sql_not_like (c_biz_type r) ''%devtier%'')
      else Some True)"

text \<open>The metric type (lines 485-496) and the priority list (lines 498-507), whose
  parts are trimmed and spliced one by one.\<close>

definition issues_metricCondition :: "string \<Rightarrow> issue_row \<Rightarrow> sql_bool" where
  "issues_metricCondition metricType r =
     (if metricType = ''fake'' then sql_eq (c_status r) ''FAKE ALARM''
      else if metricType = ''handled'' then sql_ne (c_status r) ''Created''
      else if metricType = ''critical'' then sql_eq (c_priority r) ''Critical''
      else if metricType = ''prod'' then sql_like (c_alert_signature r) ''[PROD]%''
      else if metricType = ''non_prod'' then sql_not_like (c_alert_signature r) ''[PROD]%''
      else Some True)"

definition issues_priorityCondition :: "string \<Rightarrow> (issue_row \<Rightarrow> sql_bool) reading" where
  "issues_priorityCondition priorityFilter =
     (if priorityFilter \<noteq> [] then
        (let priorities = map strings_TrimSpace (split_on CHR '','' priorityFilter)
         in if list_all quote_free priorities then Reads (\<lambda>r. sql_in (c_priority r) priorities)
            else Altered)
      else Reads (\<lambda>r. Some True))"

text \<open>The \<open>WHERE\<close> clause of the listing (line 513), when the statement is read as
  written.\<close>

definition issues_where ::
  "(string \<rightharpoonup> string) \<Rightarrow> issues_query \<Rightarrow> string \<Rightarrow> string \<Rightarrow> (issue_row \<Rightarrow> sql_bool) reading" where
  "issues_where categoryMap q startDate endDate =
     reads_and [Reads is_alert_true,
                Reads (dashboard_envCondition (q_env q)),
                issues_componentCondition categoryMap (q_component q),
                issues_tenantCondition (q_tenant_id q),
                issues_signatureCondition (q_signature q),
                issues_clusterCondition (q_cluster_id q),
                Reads (issues_categoryCondition (issues_category q)),
                Reads (issues_metricCondition (q_metric_type q)),
                issues_priorityCondition (q_priority q),
                Reads (created_between startDate endDate)]"

text \<open>
  The anti-join \<^verbatim>\<open>LEFT JOIN muted_issues ON muted_issues.issue_id = issues.id
  WHERE muted_issues.issue_id IS NULL\<close>: the issue has no row in \<open>muted_issues\<close>.
\<close>

definition not_muted :: "store \<Rightarrow> issue_row \<Rightarrow> bool" where
  "not_muted db r = (c_id r \<notin> set (map m_issue_id (t_muted_issues db)))"

text \<open>
  The query of \<open>GetDashboardIssues\<close> (lines 509-518): newest first, one page. Rows with
  equal \<open>created\<close> come in an order SQL leaves open; the model fixes one.
\<close>

definition GetDashboardIssues ::
  "(string \<rightharpoonup> string) \<Rightarrow> store \<Rightarrow> issues_query \<Rightarrow> string \<Rightarrow> string \<Rightarrow> issue_row list reading" where
  "GetDashboardIssues categoryMap db q startDate endDate =
     (case issues_where categoryMap q startDate endDate of
        Altered \<Rightarrow> Altered
      | Reads cond \<Rightarrow>
          (let page = (if q_page q < 1 then 1 else q_page q);
               pageSize = (if q_page_size q < 1 then 50 else q_page_size q);
               offset = (page - 1) * pageSize;
               rows = filter (\<lambda>r. not_muted db r \<and> selected (cond r)) (t_issues db)
           in Reads (take (nat pageSize) (drop (nat offset) (rev (sort_key c_created rows))))))"

text \<open>\<open>MuteIssue\<close> (lines 523-542): the HTTP status and the store afterwards; creating a
  second row for the same key violates the primary key and fails.\<close>

definition MuteIssue :: "store \<Rightarrow> string \<Rightarrow> nat \<times> store" where
  "MuteIssue db ident =
     (if ident = [] then (400, db)
      else if ident \<in> set (map m_issue_id (t_muted_issues db)) then (500, db)
      else (200, db\<lparr>t_muted_issues := t_muted_issues db
                        @ [\<lparr>m_issue_id = ident, m_reason = ''User muted via dashboard''\<rparr>]\<rparr>))"

section \<open>Example data\<close>

text \<open>
  An alert as ingestion stores it: no stability governance, business type devtier, so it
  belongs to the old-rules bucket; and a store holding it, a window around it, and the
  parameters of a request without filters.
\<close>

definition example_alert :: issue_row where
  "example_alert =
     \<lparr>c_id = ''O11Y-1'', c_title = Some ''[PROD] TiKV down'', c_description = Some ''alert firing'',
      c_created = Some ''2025-01-15 10:30:45 UTC'', c_priority = Some ''Critical'',
      c_labels = Some ''[]'', c_issue_type = Some ''Incident'', c_components = Some ''[]'',
      c_project = Some ''O11Y'', c_is_alert = Some True,
      c_alert_signature = Some ''[PROD] TiKV down'', c_cluster_id = Some ''123'',
      c_tenant_id = Some ''456'', c_biz_type = Some ''devtier'', c_status = Some ''Created'',
      c_is_subtask = Some False, c_stability_governance = Some [], c_visibility = Some [],
      c_component_name = Some [], c_source_component = Some [], c_alert_group = Some [],
      c_created_at = None\<rparr>"

text \<open>
  The same alert filed under the component tikv, and a category map that puts tikv in
  the Resilience category.
\<close>

definition tikv_alert :: issue_row where
  "tikv_alert =
     example_alert\<lparr>c_id := ''O11Y-3'',
       c_components := Some (''['' @ [CHR 0x22] @ ''tikv'' @ [CHR 0x22] @ '']'')\<rparr>"

definition resilience_categories :: "string \<rightharpoonup> string" where
  "resilience_categories = [''tikv'' \<mapsto> ''Resilience'']"

definition example_store :: store where
  "example_store = \<lparr>t_issues = [example_alert], t_muted_issues = []\<rparr>"

definition window_start :: string where
  "window_start = ''2025-01-01 00:00:00''"

definition window_end :: string where
  "window_end = ''2025-01-31 00:00:00''"

definition no_cluster_filter :: "issue_row \<Rightarrow> sql_bool" where
  "no_cluster_filter r = Some True"

definition no_categories :: "string \<rightharpoonup> string" where
  "no_categories = Map.empty"

definition no_filters :: dashboard_filters where
  "no_filters = \<lparr>f_component = [], f_tenant_id = [], f_signature = [], f_cluster_id = []\<rparr>"

definition plain_query :: issues_query where
  "plain_query =
     \<lparr>q_env = ''all'', q_component = [], q_tenant_id = [], q_signature = [], q_cluster_id = [],
      q_metric_type = [], q_category = [], q_priority = [], q_page = 1, q_page_size = 50\<rparr>"

section \<open>Tickets and their extraction (jira_client.go, data_updater.go)\<close>

text \<open>A decoded JSON value, as the client library hands over the custom field.\<close>

datatype json =
  JNull | JBool bool | JNumber int | JString string | JArray "json list"
  | JObject "(string \<times> json) list"

text \<open>
  \<open>JiraIssue\<close> with its \<open>Fields\<close>; a nil pointer or nil interface is \<open>None\<close>. Priority
  and status carry their name, the issue type its name and subtask flag, the parent its
  key, the components their names.
\<close>

record JiraIssue =
  Key :: string
  Fields_Summary :: string
  Fields_Description :: string
  Fields_Created :: string
  Fields_Priority :: "string option"
  Fields_Labels :: "string list"
  Fields_IssueType :: "(string \<times> bool) option"
  Fields_Component :: "string list"
  Fields_Project :: string
  Fields_Status :: "string option"
  Fields_RawAlertData :: "json option"
  Fields_Parent :: "string option"

record IssueData =
  ID :: string
  Title :: string
  Description :: string
  Created :: string
  Priority :: string
  Labels :: string
  IssueType :: string
  Components :: string
  Project :: string
  IsAlert :: bool
  AlertSignature :: string
  ClusterID :: string
  TenantID :: string
  BizType :: string
  Status :: string
  IsSubtask :: bool
  StabilityGovernance :: string
  Visibility :: string
  ComponentName :: string
  SourceComponent :: string
  AlertGroup :: string

text \<open>
  The three regular expressions of the description fallback: the key
  (\<open>tidb_cluster_id\<close>, \<open>o11y_tenant_id\<close>, \<open>o11y_biz_type\<close>), optional white space,
  \<open>=\<close> or \<open>:\<close>, optional white space, and a captured run of non-space characters.
\<close>

datatype desc_pattern = ClusterIdPattern | TenantIdPattern | BizTypePattern

text \<open>
  What the updater calls in Go's standard library, taken as given: the Unicode path of
  \<open>strings.ToLower\<close>, \<open>time.Parse\<close> with
  the tracker's layout, with RFC 3339 and with the layout \<open>2006-01-02 15:04:05\<close> of the
  stored stamps (a time is its Unix seconds), the UTC rendering in that layout, \<open>json.Marshal\<close> of a string slice and of a decoded value,
  \<open>json.Unmarshal\<close> into a string-keyed map, \<open>FindStringSubmatch\<close> for the three
  patterns, and the order in which \<open>range\<close> walks the keys of a map.
\<close>

record stdlib =
  unicode_ToLower :: "string \<Rightarrow> string"
  time_Parse_jira :: "string \<Rightarrow> int option"
  time_Parse_RFC3339 :: "string \<Rightarrow> int option"
  time_Parse_stamp :: "string \<Rightarrow> int option"
  time_Format_utc :: "int \<Rightarrow> string"
  json_Marshal_strings :: "string list \<Rightarrow> string"
  json_Marshal :: "json \<Rightarrow> string option"
  json_Unmarshal_map :: "string \<Rightarrow> (string \<times> json) list option"
  FindStringSubmatch :: "desc_pattern \<Rightarrow> string \<Rightarrow> string list"
  range_order :: "string list \<Rightarrow> string list"

text \<open>\<open>convertPriority\<close> (lines 297-312); the first three keys are the UTF-8 bytes of
  the Chinese names for critical, important and low.\<close>

definition priority_mapping :: "(string \<times> string) list" where
  "priority_mapping =
     [([CHR 0xE4, CHR 0xB8, CHR 0xA5, CHR 0xE9, CHR 0x87, CHR 0x8D], ''Critical''),
      ([CHR 0xE9, CHR 0x87, CHR 0x8D, CHR 0xE8, CHR 0xA6, CHR 0x81], ''Major''),
      ([CHR 0xE4, CHR 0xBD, CHR 0x8E], ''Low''),
      (''Medium'', ''Medium''),
      (''High'', ''Major''),
      (''Critical'', ''Critical''),
      (''Major'', ''Major'')]"

definition convertPriority :: "string \<Rightarrow> string" where
  "convertPriority p = (case map_of priority_mapping p of Some mapped \<Rightarrow> mapped | None \<Rightarrow> p)"

text \<open>\<open>convertToUTC\<close> (lines 315-329).\<close>

definition convertToUTC :: "stdlib \<Rightarrow> string \<Rightarrow> string" where
  "convertToUTC lib jiraTime =
     (case time_Parse_jira lib jiraTime of
        Some t \<Rightarrow> time_Format_utc lib t @ '' UTC''
      | None \<Rightarrow>
          (case time_Parse_RFC3339 lib jiraTime of
             Some t \<Rightarrow> time_Format_utc lib t @ '' UTC''
           | None \<Rightarrow> jiraTime))"

text \<open>The nine results of \<open>extractFromRawAlertData\<close>.\<close>

record raw_fields =
  rf_clusterID :: string
  rf_tenantID :: string
  rf_bizType :: string
  rf_labels :: string
  rf_stabilityGovernance :: string
  rf_visibility :: string
  rf_componentName :: string
  rf_sourceComponent :: string
  rf_alertGroup :: string

definition raw_fields_none :: "stdlib \<Rightarrow> string list \<Rightarrow> raw_fields" where
  "raw_fields_none lib existingLabels =
     \<lparr>rf_clusterID = [], rf_tenantID = [], rf_bizType = [],
      rf_labels = json_Marshal_strings lib existingLabels,
      rf_stabilityGovernance = [], rf_visibility = [], rf_componentName = [],
      rf_sourceComponent = [], rf_alertGroup = []\<rparr>"

text \<open>The type assertion \<open>labels[k].(string)\<close>: the string, or empty.\<close>

definition label_string :: "(string \<times> json) list \<Rightarrow> string \<Rightarrow> string" where
  "label_string ls k = (case map_of ls k of Some (JString s) \<Rightarrow> s | _ \<Rightarrow> [])"

definition tagged :: "string \<Rightarrow> string \<Rightarrow> string list" where
  "tagged k v = (if v \<noteq> [] then [k @ '':'' @ v] else [])"

text \<open>\<open>extractFromRawAlertData\<close> (lines 345-430).\<close>

definition extractFromRawAlertData :: "stdlib \<Rightarrow> json \<Rightarrow> string list \<Rightarrow> raw_fields" where
  "extractFromRawAlertData lib rawData existingLabels =
     (case (case rawData of
              JString v \<Rightarrow> Some v
            | _ \<Rightarrow> json_Marshal lib rawData) of
        None \<Rightarrow> raw_fields_none lib existingLabels
      | Some jsonData \<Rightarrow>
          (case json_Unmarshal_map lib jsonData of
             None \<Rightarrow> raw_fields_none lib existingLabels
           | Some data \<Rightarrow>
               (case map_of data ''labels'' of
                  Some (JObject ls) \<Rightarrow>
                    (let clusterID = (if label_string ls ''tidb_cluster_id'' = []
                                      then label_string ls ''cluster_id''
                                      else label_string ls ''tidb_cluster_id'');
                         stabilityGovernance = label_string ls ''stability_governance'';
                         visibility = label_string ls ''visibility'';
                         componentName = label_string ls ''component'';
                         sourceComponent = label_string ls ''source_component'';
                         alertGroup = label_string ls ''alertgroup'';
                         uniqueLabels = remdups (existingLabels
                            @ tagged ''stability_governance'' stabilityGovernance
                            @ tagged ''visibility'' visibility
                            @ tagged ''component'' componentName
                            @ tagged ''source_component'' sourceComponent
                            @ tagged ''alertgroup'' alertGroup)
                     in \<lparr>rf_clusterID = clusterID,
                         rf_tenantID = label_string ls ''o11y_tenant_id'',
                         rf_bizType = label_string ls ''o11y_biz_type'',
                         rf_labels = json_Marshal_strings lib (range_order lib uniqueLabels),
                         rf_stabilityGovernance = stabilityGovernance,
                         rf_visibility = visibility,
                         rf_componentName = componentName,
                         rf_sourceComponent = sourceComponent,
                         rf_alertGroup = alertGroup\<rparr>)
                | _ \<Rightarrow> raw_fields_none lib existingLabels)))"

text \<open>The capture of a pattern in the description, trimmed, or empty (lines 439-467).\<close>

definition description_capture :: "stdlib \<Rightarrow> desc_pattern \<Rightarrow> string \<Rightarrow> string" where
  "description_capture lib pat descr =
     (let matches = FindStringSubmatch lib pat descr
      in if length matches > 1 then strings_TrimSpace (matches ! 1) else [])"

text \<open>
  \<open>extractIssueData\<close> (lines 212-294) in four steps, in the order of the source. First
  the fields read off the ticket (lines 213-264): scalars, priority, issue type, status,
  labels, components, the alert flag and the signature.
\<close>

definition extract_ticket_fields :: "stdlib \<Rightarrow> JiraIssue \<Rightarrow> IssueData" where
  "extract_ticket_fields lib issue =
     (let d0 = \<lparr>ID = Key issue, Title = Fields_Summary issue,
                Description = Fields_Description issue,
                Created = convertToUTC lib (Fields_Created issue),
                Priority = [], Labels = [], IssueType = [], Components = [],
                Project = Fields_Project issue, IsAlert = False, AlertSignature = [],
                ClusterID = [], TenantID = [], BizType = [], Status = [], IsSubtask = False,
                StabilityGovernance = [], Visibility = [], ComponentName = [],
                SourceComponent = [], AlertGroup = []\<rparr>;
          d1 = (case Fields_Priority issue of
                  Some name \<Rightarrow> d0\<lparr>Priority := convertPriority name\<rparr>
                | None \<Rightarrow> d0);
          d2 = (case Fields_IssueType issue of
                  Some (name, subtask) \<Rightarrow>
                    d1\<lparr>IssueType := name,
                       IsSubtask := (subtask \<or> Fields_Parent issue \<noteq> None)\<rparr>
                | None \<Rightarrow> d1);
          d3 = (case Fields_Status issue of
                  Some name \<Rightarrow> d2\<lparr>Status := name\<rparr>
                | None \<Rightarrow> d2);
          d4 = d3\<lparr>Labels := (if length (Fields_Labels issue) > 0
                               then json_Marshal_strings lib (Fields_Labels issue) else ''[]'')\<rparr>;
          d5 = d4\<lparr>Components := (if length (Fields_Component issue) > 0
                                   then json_Marshal_strings lib (Fields_Component issue)
                                   else ''[]'')\<rparr>;
          d6 = d5\<lparr>IsAlert := isAlert (unicode_ToLower lib) (Description d5) (Title d5)\<rparr>
      in if IsAlert d6 then d6\<lparr>AlertSignature := Title d6\<rparr> else d6)"

text \<open>Then the raw alert data, when the ticket has it (lines 266-270).\<close>

definition extract_alert_fields :: "stdlib \<Rightarrow> JiraIssue \<Rightarrow> IssueData \<Rightarrow> IssueData" where
  "extract_alert_fields lib issue d =
     (case Fields_RawAlertData issue of
        Some raw \<Rightarrow>
          (let rf = extractFromRawAlertData lib raw (Fields_Labels issue)
           in d\<lparr>ClusterID := rf_clusterID rf, TenantID := rf_tenantID rf,
                BizType := rf_bizType rf, Labels := rf_labels rf,
                StabilityGovernance := rf_stabilityGovernance rf,
                Visibility := rf_visibility rf,
                ComponentName := rf_componentName rf,
                SourceComponent := rf_sourceComponent rf,
                AlertGroup := rf_alertGroup rf\<rparr>)
      | None \<Rightarrow> d)"

text \<open>Then the fallback to the description (lines 272-284).\<close>

definition description_fallback :: "stdlib \<Rightarrow> IssueData \<Rightarrow> IssueData" where
  "description_fallback lib d =
     (if ClusterID d = [] \<or> TenantID d = [] \<or> BizType d = [] then
        d\<lparr>ClusterID := (if ClusterID d = []
                          then description_capture lib ClusterIdPattern (Description d)
                          else ClusterID d),
           TenantID := (if TenantID d = []
                         then description_capture lib TenantIdPattern (Description d)
                         else TenantID d),
           BizType := (if BizType d = []
                        then description_capture lib BizTypePattern (Description d)
                        else BizType d)\<rparr>
      else d)"

text \<open>Last the tenant looked up from the cluster through the name resolver, whose state
  is threaded through (lines 286-291).\<close>

definition resolve_tenant ::
  "(nat \<Rightarrow> string \<Rightarrow> api_reply) \<Rightarrow> NameResolver \<Rightarrow> IssueData \<Rightarrow> IssueData \<times> NameResolver" where
  "resolve_tenant api nr d =
     (if TenantID d = [] \<and> ClusterID d \<noteq> [] then
        (case Resolve api nr (ClusterID d) of
           ((info, err), nr') \<Rightarrow>
             (if err = None \<and> ni_TenantID info \<noteq> []
              then (d\<lparr>TenantID := ni_TenantID info\<rparr>, nr')
              else (d, nr')))
      else (d, nr))"

definition extractIssueData ::
  "stdlib \<Rightarrow> (nat \<Rightarrow> string \<Rightarrow> api_reply) \<Rightarrow> NameResolver \<Rightarrow> JiraIssue
     \<Rightarrow> IssueData \<times> NameResolver" where
  "extractIssueData lib api nr issue =
     resolve_tenant api nr
       (description_fallback lib
          (extract_alert_fields lib issue (extract_ticket_fields lib issue)))"

text \<open>The row that the \<open>INSERT OR REPLACE\<close> statement writes: the 21 columns it names,
  none of them NULL, and \<open>created_at\<close> left to its default.\<close>

definition row_of_IssueData :: "IssueData \<Rightarrow> issue_row" where
  "row_of_IssueData d =
     \<lparr>c_id = ID d, c_title = Some (Title d), c_description = Some (Description d),
      c_created = Some (Created d), c_priority = Some (Priority d), c_labels = Some (Labels d),
      c_issue_type = Some (IssueType d), c_components = Some (Components d),
      c_project = Some (Project d), c_is_alert = Some (IsAlert d),
      c_alert_signature = Some (AlertSignature d), c_cluster_id = Some (ClusterID d),
      c_tenant_id = Some (TenantID d), c_biz_type = Some (BizType d),
      c_status = Some (Status d), c_is_subtask = Some (IsSubtask d),
      c_stability_governance = Some (StabilityGovernance d),
      c_visibility = Some (Visibility d), c_component_name = Some (ComponentName d),
      c_source_component = Some (SourceComponent d), c_alert_group = Some (AlertGroup d),
      c_created_at = None\<rparr>"

text \<open>
  \<open>insertOrUpdateIssue\<close> (lines 470-511). \<open>INSERT OR REPLACE\<close> deletes the rows whose
  primary key equals the new one and inserts the new row; \<open>exec_ok\<close> says whether the
  database executed the statement, and a failed statement leaves the table as it was.
\<close>

definition insertOrUpdateIssue :: "bool \<Rightarrow> store \<Rightarrow> IssueData \<Rightarrow> bool \<times> store" where
  "insertOrUpdateIssue exec_ok db d =
     (if exec_ok
      then (True, db\<lparr>t_issues := filter (\<lambda>r. c_id r \<noteq> ID d) (t_issues db)
                                    @ [row_of_IssueData d]\<rparr>)
      else (False, db))"

text \<open>\<open>processIssue\<close> (lines 203-209), on the store and the resolver.\<close>

definition processIssue ::
  "stdlib \<Rightarrow> (nat \<Rightarrow> string \<Rightarrow> api_reply) \<Rightarrow> bool \<Rightarrow> store \<times> NameResolver \<Rightarrow> JiraIssue
     \<Rightarrow> bool \<times> store \<times> NameResolver" where
  "processIssue lib api exec_ok st issue =
     (case extractIssueData lib api (snd st) issue of
        (issueData, nr') \<Rightarrow>
          (case insertOrUpdateIssue exec_ok (fst st) issueData of
             (ok, db') \<Rightarrow> (ok, db', nr')))"

text \<open>The processing loop of both update functions over the fetched tickets, each with
  the outcome of its database statement: the number stored and the state afterwards.\<close>

fun process_all ::
  "stdlib \<Rightarrow> (nat \<Rightarrow> string \<Rightarrow> api_reply) \<Rightarrow> store \<times> NameResolver \<Rightarrow> (bool \<times> JiraIssue) list
     \<Rightarrow> nat \<times> store \<times> NameResolver" where
  "process_all lib api st [] = (0, st)"
| "process_all lib api st ((exec_ok, issue) # rest) =
     (case processIssue lib api exec_ok st issue of
        (ok, st') \<Rightarrow>
          (case process_all lib api st' rest of
             (successCount, st'') \<Rightarrow> ((if ok then Suc successCount else successCount), st'')))"

definition empty_store :: store where
  "empty_store = \<lparr>t_issues = [], t_muted_issues = []\<rparr>"

definition rows_with_key :: "string \<Rightarrow> store \<Rightarrow> issue_row list" where
  "rows_with_key k db = filter (\<lambda>r. c_id r = k) (t_issues db)"

text \<open>
  What \<open>extractIssueData\<close> leaves in the table (lines 261-264 and 492): a row with
  the alert flag set carries its title as its alert signature.
\<close>

definition alert_rows_signed :: "store \<Rightarrow> bool" where
  "alert_rows_signed db \<longleftrightarrow>
     list_all (\<lambda>r. c_is_alert r = Some True \<longrightarrow> c_alert_signature r = c_title r) (t_issues db)"

text \<open>A library stand-in and a ticket for the examples.\<close>

definition example_lib :: stdlib where
  "example_lib =
     \<lparr>unicode_ToLower = (\<lambda>s. s),
      time_Parse_jira = (\<lambda>s. None), time_Parse_RFC3339 = (\<lambda>s. None),
      time_Parse_stamp = map_of [(''2025-01-15 10:30:45'', 1736937045),
                                 (''2025-01-10 08:00:00'', 1736496000)],
      time_Format_utc = (\<lambda>t. []), json_Marshal_strings = (\<lambda>xs. ''[]''),
      json_Marshal = (\<lambda>j. None), json_Unmarshal_map = (\<lambda>s. None),
      FindStringSubmatch = (\<lambda>p s. []), range_order = (\<lambda>xs. xs)\<rparr>"

definition example_ticket :: JiraIssue where
  "example_ticket =
     \<lparr>Key = ''O11Y-7'', Fields_Summary = ''[PROD] TiKV down'',
      Fields_Description = ''Prometheus alert is firing'',
      Fields_Created = ''2025-01-15T18:30:45.000+0800'', Fields_Priority = Some ''High'',
      Fields_Labels = [], Fields_IssueType = Some (''Incident'', False), Fields_Component = [],
      Fields_Project = ''O11Y'', Fields_Status = Some ''Created'', Fields_RawAlertData = None,
      Fields_Parent = None\<rparr>"


text \<open>
  A ticket whose description names cluster 123, a library stand-in whose cluster pattern
  finds it, and a name service that is down for the first request and answers from the
  second on: the tenant of the ticket is unknown at a first ingestion and known at a
  second one.
\<close>

definition cluster_ticket :: JiraIssue where
  "cluster_ticket =
     \<lparr>Key = ''O11Y-9'', Fields_Summary = ''[PROD] TiKV down'',
      Fields_Description = ''alert tidb_cluster_id=123'',
      Fields_Created = ''2025-01-15T18:30:45.000+0800'', Fields_Priority = Some ''High'',
      Fields_Labels = [], Fields_IssueType = Some (''Incident'', False), Fields_Component = [],
      Fields_Project = ''O11Y'', Fields_Status = Some ''Created'', Fields_RawAlertData = None,
      Fields_Parent = None\<rparr>"

definition cluster_submatch :: "desc_pattern \<Rightarrow> string \<Rightarrow> string list" where
  "cluster_submatch pat descr =
     (if pat = ClusterIdPattern then [''tidb_cluster_id=123'', ''123''] else [])"

definition cluster_lib :: stdlib where
  "cluster_lib = example_lib\<lparr>FindStringSubmatch := cluster_submatch\<rparr>"

definition recovering_service :: "nat \<Rightarrow> string \<Rightarrow> api_reply" where
  "recovering_service n ident =
     (if n = 0 then GetFailed ''timeout''
      else Response 200 (Decoded True
             (empty_NameInfo\<lparr>ni_ID := ident, ni_Name := ''cluster-'' @ ident,
                               ni_TenantID := ''t-9''\<rparr>)))"

section \<open>The window of the incremental update (data_updater.go)\<close>

datatype update_error =
  ConnectionTestFailed string | LatestDateQueryFailed string | LatestDateParseFailed string

text \<open>\<open>SELECT MAX(created) FROM issues\<close>: the greatest non-NULL value in the bytewise
  order of TEXT, NULL when there is none.\<close>

definition sql_max_created :: "issue_row list \<Rightarrow> sql_text" where
  "sql_max_created rows =
     (case List.map_filter c_created rows of
        [] \<Rightarrow> None
      | v # vs \<Rightarrow> Some (fold max vs v))"

text \<open>
  The head of \<open>IncrementalUpdate\<close> (lines 102-131), up to the window handed to the
  fetch. \<open>conn_err\<close> is the outcome of the connection test and \<open>query_err\<close> that of the
  query; \<open>clock n\<close> is the \<open>n\<close>-th reading of \<open>time.Now()\<close> in this call, in Unix
  seconds. Thirty days are 2592000 seconds.
\<close>

definition IncrementalUpdate_window ::
  "stdlib \<Rightarrow> string option \<Rightarrow> string option \<Rightarrow> (nat \<Rightarrow> int) \<Rightarrow> store
     \<Rightarrow> update_error + (int \<times> int)" where
  "IncrementalUpdate_window lib conn_err query_err clock db =
     (case conn_err of
        Some e \<Rightarrow> Inl (ConnectionTestFailed e)
      | None \<Rightarrow>
          (case query_err of
             Some e \<Rightarrow> Inl (LatestDateQueryFailed e)
           | None \<Rightarrow>
               (case sql_max_created (t_issues db) of
                  Some latestDate \<Rightarrow>
                    (case time_Parse_stamp lib (strings_TrimSuffix latestDate '' UTC'') of
                       None \<Rightarrow> Inl (LatestDateParseFailed latestDate)
                     | Some t \<Rightarrow> Inr (t + 1, clock 0))
                | None \<Rightarrow> Inr (clock 0 - 30 * 86400, clock 1))))"

text \<open>The creation time of a row, read the way \<open>IncrementalUpdate\<close> reads the latest
  stamp, and the creation times of all rows that have one.\<close>

definition created_time :: "stdlib \<Rightarrow> issue_row \<Rightarrow> int option" where
  "created_time lib r =
     (case c_created r of
        None \<Rightarrow> None
      | Some v \<Rightarrow> time_Parse_stamp lib (strings_TrimSuffix v '' UTC''))"

definition created_times :: "stdlib \<Rightarrow> issue_row list \<Rightarrow> int list" where
  "created_times lib rows = List.map_filter (created_time lib) rows"

text \<open>
  The stored stamps are well formed for the library when every row has a stamp that
  parses, and the bytewise order of the stamps agrees with the order of their times (as
  it does for \<open>YYYY-MM-DD HH:MM:SS UTC\<close> with four-digit years).
\<close>

definition stamps_well_formed :: "stdlib \<Rightarrow> issue_row list \<Rightarrow> bool" where
  "stamps_well_formed lib rows \<longleftrightarrow>
     (\<forall>r \<in> set rows. c_created r \<noteq> None \<and> created_time lib r \<noteq> None)
     \<and> (\<forall>r \<in> set rows. \<forall>r' \<in> set rows.
           c_created r \<le> c_created r' \<longrightarrow> created_time lib r \<le> created_time lib r')"

definition example_clock :: "nat \<Rightarrow> int" where
  "example_clock n = 1738000000 + int n"

definition two_alert_store :: store where
  "two_alert_store =
     \<lparr>t_issues = [example_alert,
                  example_alert\<lparr>c_id := ''O11Y-2'', c_created := Some ''2025-01-10 08:00:00 UTC''\<rparr>],
      t_muted_issues = []\<rparr>"

section \<open>Properties\<close>

subsection \<open>Counts and rates\<close>

lemma signed_zero_iff: "(signed (w :: int64) :: real) = 0 \<longleftrightarrow> w = 0"
  by (simp add: signed_eq_0_iff)

lemma sint_zero_iff: "sint (w :: int64) = 0 \<longleftrightarrow> w = 0"
  by (simp add: signed_eq_0_iff)

lemma count_diff_no_wrap:
  assumes "0 \<le> sint (c :: int64)" and "0 \<le> sint (p :: int64)"
  shows "sint (c - p) = sint c - sint p"
proof -
  have c: "sint c < 2 ^ 63" using sint_lt [of c] by simp
  have p: "sint p < 2 ^ 63" using sint_lt [of p] by simp
  have "signed_take_bit 63 (sint c - sint p) = sint c - sint p"
    by (rule signed_take_bit_int_eq_self) (use assms c p in linarith)+
  then show ?thesis by (simp add: sint_word_diff)
qed

lemma rate_quotient_finite:
  "den \<noteq> 0 \<Longrightarrow> fmul (fdiv (float64_of_int num) (float64_of_int den)) (Fin 100)
     = Fin (of_int (sint num) / of_int (sint den) * 100)"
  by (simp add: float64_of_int_def signed_zero_iff)

lemma calculateChange_counts:
  assumes "0 \<le> sint current" and "0 \<le> sint previous"
  shows "calculateChange current previous = spec_change_rule (sint current) (sint previous)"
proof (cases "previous = 0")
  case True
  then show ?thesis
    by (simp add: calculateChange_def spec_change_rule_def sint_zero_iff)
next
  case False
  have d: "sint (current - previous) = sint current - sint previous"
    by (rule count_diff_no_wrap [OF assms])
  have q: "fmul (fdiv (float64_of_int (current - previous)) (float64_of_int previous)) (Fin 100)
      = Fin ((of_int (sint current) - of_int (sint previous)) / of_int (sint previous) * 100)"
    using rate_quotient_finite [OF False, of "current - previous"] by (simp only: d of_int_diff)
  from False have nz: "sint previous \<noteq> 0" by (simp add: sint_zero_iff)
  show ?thesis
    unfolding calculateChange_def spec_change_rule_def Let_def q using False nz by simp
qed

lemma calcCompChange_eq: "calcCompChange c p = calculateChange c p"
  by (simp add: calcCompChange_def calculateChange_def)

text \<open>
  C1. For every pair of counts the change and the trend follow the rule of the
  specification (0/neutral, 100/up, else the relative change in percent with the trend its
  sign), and the dashboard's \<open>calculateChange\<close> and the component statistics'
  \<open>calcCompChange\<close> compute the same pair. Counts are non-negative 64-bit integers.
\<close>

theorem change_trend_rule:
  assumes "0 \<le> sint current" and "0 \<le> sint previous"
  shows "calculateChange current previous = spec_change_rule (sint current) (sint previous)
       \<and> calcCompChange current previous = spec_change_rule (sint current) (sint previous)"
  using calculateChange_counts [OF assms] by (simp add: calcCompChange_eq)

theorem change_trend_rule_witness:
  "calculateChange 10 5 = (Fin 100, ''up'') \<and> calcCompChange 10 5 = (Fin 100, ''up'')
   \<and> calculateChange 5 10 = (Fin (- 50), ''down'') \<and> calcCompChange 5 10 = (Fin (- 50), ''down'')
   \<and> calculateChange 0 0 = (Fin 0, ''neutral'') \<and> calcCompChange 7 0 = (Fin 100, ''up'')"
  using change_trend_rule [of 10 5] change_trend_rule [of 5 10]
        change_trend_rule [of 0 0] change_trend_rule [of 7 0]
  by (simp add: spec_change_rule_def)

text \<open>
  C10. The rate helpers never divide by zero: with a total of 0 both rates of a period are
  the finite value 0, in the dashboard and in the component statistics, and for every
  numerator and denominator the helpers return a finite value; the unguarded quotient
  would not.
\<close>

theorem rates_guard_zero_total:
  "dashboard_period_rates fake handled 0 = (Fin 0, Fin 0)
   \<and> component_period_rates fake handled 0 = (Fin 0, Fin 0)
   \<and> is_finite (dashboard_calcRate num den) \<and> is_finite (component_calcRate num den)
   \<and> \<not> is_finite (unguarded_rate num 0)"
proof -
  have "is_finite (dashboard_calcRate num den)"
    by (cases "den = 0") (simp_all add: dashboard_calcRate_def rate_quotient_finite)
  moreover have "is_finite (component_calcRate num den)"
    by (cases "den = 0") (simp_all add: component_calcRate_def rate_quotient_finite)
  moreover have "\<not> is_finite (unguarded_rate num 0)"
    by (simp add: unguarded_rate_def float64_of_int_def)
  ultimately show ?thesis
    by (simp add: dashboard_period_rates_def component_period_rates_def
        dashboard_calcRate_def component_calcRate_def)
qed

subsection \<open>Substring search and the alert flag\<close>

lemma strings_HasPrefix_iff: "strings_HasPrefix s p \<longleftrightarrow> (\<exists>post. s = p @ post)"
  by (induction s p rule: strings_HasPrefix.induct) auto

lemma strings_Contains_iff:
  "strings_Contains s sub \<longleftrightarrow> (\<exists>pre post. s = pre @ sub @ post)"
proof (induction s)
  case Nil
  then show ?case by auto
next
  case (Cons c cs)
  show ?case
  proof
    assume "strings_Contains (c # cs) sub"
    then consider "strings_HasPrefix (c # cs) sub" | "strings_Contains cs sub" by auto
    then show "\<exists>pre post. c # cs = pre @ sub @ post"
    proof cases
      case 1
      then obtain post where "c # cs = sub @ post" by (auto simp: strings_HasPrefix_iff)
      then have "c # cs = [] @ sub @ post" by simp
      then show ?thesis by blast
    next
      case 2
      then obtain pre post where "cs = pre @ sub @ post" using Cons.IH by auto
      then have "c # cs = (c # pre) @ sub @ post" by simp
      then show ?thesis by blast
    qed
  next
    assume "\<exists>pre post. c # cs = pre @ sub @ post"
    then obtain pre post where e: "c # cs = pre @ sub @ post" by auto
    show "strings_Contains (c # cs) sub"
    proof (cases pre)
      case Nil
      with e have "strings_HasPrefix (c # cs) sub" by (auto simp: strings_HasPrefix_iff)
      then show ?thesis by simp
    next
      case (Cons a pre')
      with e have "cs = pre' @ sub @ post" by simp
      then have "strings_Contains cs sub" using Cons.IH by auto
      then show ?thesis by simp
    qed
  qed
qed

lemma to_lower_char_idem: "to_lower_char (to_lower_char c) = to_lower_char c"
  by (auto simp: to_lower_char_def split: option.splits if_splits)

lemma ascii_lower_idem: "ascii_lower (ascii_lower s) = ascii_lower s"
  by (simp add: ascii_lower_def to_lower_char_idem)

lemma contains_lower_iff:
  "strings_Contains (ascii_lower s) (ascii_lower kw) \<longleftrightarrow> contains_ci s kw"
proof
  assume "strings_Contains (ascii_lower s) (ascii_lower kw)"
  then obtain pre post where e: "map to_lower_char s = pre @ map to_lower_char kw @ post"
    by (auto simp: strings_Contains_iff ascii_lower_def)
  define n m where "n = length pre" and "m = length kw"
  have "take m (drop n s) @ drop m (drop n s) = drop n s"
    by (rule append_take_drop_id)
  then have s: "s = take n s @ take m (drop n s) @ drop m (drop n s)"
    by (simp only: append_take_drop_id)
  have "map to_lower_char (take m (drop n s)) = take m (drop n (map to_lower_char s))"
    by (simp add: take_map drop_map)
  also have "\<dots> = map to_lower_char kw" by (simp add: e n_def m_def)
  finally have "ascii_lower (take m (drop n s)) = ascii_lower kw"
    by (simp add: ascii_lower_def)
  with s show "contains_ci s kw" unfolding contains_ci_def by blast
next
  assume "contains_ci s kw"
  then obtain pre mid post where "s = pre @ mid @ post"
    and "ascii_lower mid = ascii_lower kw"
    by (auto simp: contains_ci_def)
  then have "ascii_lower s = ascii_lower pre @ ascii_lower kw @ ascii_lower post"
    by (simp add: ascii_lower_def)
  then show "strings_Contains (ascii_lower s) (ascii_lower kw)"
    unfolding strings_Contains_iff by blast
qed

lemma keyword_lower:
  "ascii_lower ''alert'' = ''alert''"
  "ascii_lower ''firing'' = ''firing''"
  "ascii_lower ''prometheus'' = ''prometheus''"
  by (simp_all add: ascii_lower_def to_lower_char_def)

lemma contains_keyword:
  "strings_Contains (ascii_lower s) ''alert'' \<longleftrightarrow> contains_ci s ''alert''"
  "strings_Contains (ascii_lower s) ''firing'' \<longleftrightarrow> contains_ci s ''firing''"
  "strings_Contains (ascii_lower s) ''prometheus'' \<longleftrightarrow> contains_ci s ''prometheus''"
  using contains_lower_iff [of s "''alert''"] contains_lower_iff [of s "''firing''"]
    contains_lower_iff [of s "''prometheus''"]
  by (simp_all only: keyword_lower)

lemma strings_ToLower_ascii: "is_ascii s \<Longrightarrow> strings_ToLower unicodeLower s = ascii_lower s"
  by (simp add: strings_ToLower_def)

lemma isAlert_lowered:
  "isAlert unicodeLower description title \<longleftrightarrow>
     contains_lowered unicodeLower description ''alert''
     \<or> contains_lowered unicodeLower description ''firing''
     \<or> contains_lowered unicodeLower description ''prometheus''
     \<or> contains_lowered unicodeLower title ''alert''"
  unfolding isAlert_def Let_def contains_lowered_def strings_Contains_iff by blast

lemma isAlert_ascii:
  assumes "is_ascii description" and "is_ascii title"
  shows "isAlert unicodeLower description title \<longleftrightarrow>
     contains_ci description ''alert'' \<or> contains_ci description ''firing'' \<or>
     contains_ci description ''prometheus'' \<or> contains_ci title ''alert''"
  unfolding isAlert_def Let_def strings_ToLower_ascii [OF assms(1)] strings_ToLower_ascii [OF assms(2)]
    contains_keyword
  by blast

text \<open>
  C5 as stated fails: a ticket whose title alone contains "firing" is not classified as an
  alert, although the specification's flag holds for it. Both texts are ASCII, so the
  Unicode path of the library (here the identity) is never entered.
\<close>

theorem isAlert_title_firing_counterexample:
  "spec_alert_flag id [] ''firing'' \<and> \<not> isAlert id [] ''firing''"
proof -
  have "strings_ToLower id ''firing'' = [] @ ''firing'' @ []"
    by (simp add: strings_ToLower_def is_ascii_def ascii_lower_def to_lower_char_def)
  then have "contains_lowered id ''firing'' ''firing''"
    unfolding contains_lowered_def by blast
  then have "spec_alert_flag id [] ''firing''" by (simp add: spec_alert_flag_def)
  moreover have "\<not> isAlert id [] ''firing''"
    by (simp add: isAlert_def strings_ToLower_def is_ascii_def ascii_lower_def to_lower_char_def)
  ultimately show ?thesis by simp
qed

text \<open>
  C5, amended. The alert flag is true if and only if the description, lower-cased as Go
  does, contains "alert", "firing" or "prometheus", or the lower-cased title contains
  "alert"; the title is not searched for "firing" or "prometheus". For ASCII texts this
  is containment up to the case of the letters.
\<close>

theorem isAlert_iff:
  "(isAlert unicodeLower description title \<longleftrightarrow>
      contains_lowered unicodeLower description ''alert''
      \<or> contains_lowered unicodeLower description ''firing''
      \<or> contains_lowered unicodeLower description ''prometheus''
      \<or> contains_lowered unicodeLower title ''alert'')
   \<and> (is_ascii description \<and> is_ascii title \<longrightarrow>
        (isAlert unicodeLower description title \<longleftrightarrow>
           contains_ci description ''alert'' \<or> contains_ci description ''firing'' \<or>
           contains_ci description ''prometheus'' \<or> contains_ci title ''alert''))"
  using isAlert_lowered [of unicodeLower description title]
    isAlert_ascii [of description title unicodeLower]
  by blast

theorem isAlert_iff_witness:
  "is_ascii ''Prometheus FIRING now'' \<and> is_ascii ''TiKV down''
   \<and> isAlert id ''Prometheus FIRING now'' ''TiKV down''
   \<and> contains_ci ''Prometheus FIRING now'' ''firing''
   \<and> \<not> isAlert id ''disk is full'' ''Prometheus FIRING now''"
proof -
  have a: "is_ascii ''Prometheus FIRING now''" "is_ascii ''TiKV down''" "is_ascii ''disk is full''"
    by (simp_all add: is_ascii_def)
  have yes: "isAlert id ''Prometheus FIRING now'' ''TiKV down''"
    by (simp add: isAlert_def strings_ToLower_def a ascii_lower_def to_lower_char_def)
  have no: "\<not> isAlert id ''disk is full'' ''Prometheus FIRING now''"
    by (simp add: isAlert_def strings_ToLower_def a ascii_lower_def to_lower_char_def)
  have "contains_ci ''Prometheus FIRING now'' ''firing''"
    using contains_keyword(2) [of "''Prometheus FIRING now''"]
    by (simp add: ascii_lower_def to_lower_char_def)
  then show ?thesis
    using isAlert_iff [of id "''Prometheus FIRING now''" "''TiKV down''"]
      isAlert_iff [of id "''disk is full''" "''Prometheus FIRING now''"] a yes no
    by simp
qed

text \<open>
  Beyond ASCII the flag follows the library: the description whose bytes are the UTF-8 of
  F, U+0130, R, U+0130, N, G is an alert as soon as the library lower-cases it to
  "firing", which Go's does.
\<close>

lemma isAlert_dotted_capital_i:
  assumes "unicodeLower [CHR 0x46, CHR 0xC4, CHR 0xB0, CHR 0x52, CHR 0xC4, CHR 0xB0, CHR 0x4E, CHR 0x47]
             = ''firing''"
  shows "isAlert unicodeLower
           [CHR 0x46, CHR 0xC4, CHR 0xB0, CHR 0x52, CHR 0xC4, CHR 0xB0, CHR 0x4E, CHR 0x47] []"
  using assms by (simp add: isAlert_def strings_ToLower_def is_ascii_def)

subsection \<open>Pagination\<close>

lemma search_loop_fetches: "snd (search_loop srv conv ps n tok acc) \<le> maxPages - n"
proof (induction srv conv ps n tok acc rule: search_loop.induct)
  case (1 srv conv pageSize pageNum nextPageToken allIssues)
  show ?case
  proof (cases "Suc pageNum > maxPages")
    case True
    then show ?thesis by (simp add: search_loop.simps)
  next
    case False
    show ?thesis
    proof (cases "srv (Suc pageNum) pageSize nextPageToken")
      case (SearchFailed err)
      with False show ?thesis by (simp add: search_loop.simps)
    next
      case (SearchPage issues respToken)
      show ?thesis
      proof (cases "respToken = [] \<or> respToken = nextPageToken")
        case True
        with False SearchPage show ?thesis by (auto simp add: search_loop.simps)
      next
        case stop: False
        then have "snd (search_loop srv conv pageSize (Suc pageNum) respToken
                          (allIssues @ map conv issues)) \<le> maxPages - Suc pageNum"
          using "1.IH" [OF False SearchPage] by simp
        with False SearchPage stop show ?thesis
          by (auto simp add: search_loop.simps [of srv conv pageSize pageNum] split: prod.splits)
      qed
    qed
  qed
qed

text \<open>
  C6. The fetch loop is a total function (its termination is proved with the definition)
  and sends at most 500 requests whatever the tracker answers; from any state of the loop
  below the ceiling, a response with an empty token ends it after that one request, and so
  does a response whose token equals the token just sent, in both cases returning all
  issues collected so far including that page; at the ceiling no request is sent.
\<close>

theorem pagination_terminates:
  "snd (SearchAllIssues srv conv pageSize) \<le> 500
   \<and> (pageNum < 500 \<and> srv (Suc pageNum) ps tok = SearchPage issues []
        \<longrightarrow> search_loop srv conv ps pageNum tok acc = (Inr (acc @ map conv issues), 1))
   \<and> (pageNum < 500 \<and> srv (Suc pageNum) ps tok = SearchPage issues tok
        \<longrightarrow> search_loop srv conv ps pageNum tok acc = (Inr (acc @ map conv issues), 1))
   \<and> (500 \<le> pageNum \<longrightarrow> search_loop srv conv ps pageNum tok acc = (Inr acc, 0))"
proof -
  have "snd (SearchAllIssues srv conv pageSize) \<le> 500"
    using search_loop_fetches [of srv conv _ 0 "[]" "[]"]
    by (simp add: SearchAllIssues_def maxPages_def)
  then show ?thesis
    by (simp add: search_loop.simps [of srv conv ps pageNum] maxPages_def)
qed

theorem pagination_terminates_witness:
  "snd (SearchAllIssues endless_tracker id 0) \<le> 500
   \<and> search_loop stuck_tracker id 100 1 ''t1'' [1] = (Inr [1, 2], 1)
   \<and> search_loop final_tracker id 100 0 [] [] = (Inr [1], 1)
   \<and> search_loop endless_tracker id 100 500 ''x'' [] = (Inr [], 0)"
  using pagination_terminates [of endless_tracker id 0 500 100 "''x''" "[]" "[]"]
    pagination_terminates [of stuck_tracker id 0 1 100 "''t1''" "[2]" "[1]"]
    pagination_terminates [of final_tracker id 0 0 100 "[]" "[1]" "[]"]
  by (simp add: stuck_tracker_def final_tracker_def)

lemma stuck_tracker_run: "SearchAllIssues stuck_tracker id 0 = (Inr [1, 2], 2)"
  by (simp add: SearchAllIssues_def search_loop.simps stuck_tracker_def maxPages_def)

text \<open>The ceiling is what stops a tracker that never repeats a token: exactly 500
  requests are sent.\<close>

lemma endless_tracker_ceiling:
  "snd (search_loop endless_tracker conv ps n tok acc) = maxPages - n"
proof (induction endless_tracker conv ps n tok acc rule: search_loop.induct)
  case (1 conv pageSize pageNum nextPageToken allIssues)
  show ?case
  proof (cases "Suc pageNum > maxPages")
    case True
    then show ?thesis by (simp add: search_loop.simps)
  next
    case False
    have reply: "endless_tracker (Suc pageNum) pageSize nextPageToken
                   = SearchPage [Suc pageNum] (CHR ''x'' # nextPageToken)"
      by (simp add: endless_tracker_def)
    have "snd (search_loop endless_tracker conv pageSize (Suc pageNum) (CHR ''x'' # nextPageToken)
             (allIssues @ map conv [Suc pageNum])) = maxPages - Suc pageNum"
      using "1.hyps" [OF False reply] by simp
    with False show ?thesis
      by (auto simp add: search_loop.simps [of endless_tracker conv pageSize pageNum] reply
          split: prod.splits)
  qed
qed

lemma endless_tracker_run: "snd (SearchAllIssues endless_tracker conv pageSize) = 500"
  by (simp add: SearchAllIssues_def endless_tracker_ceiling maxPages_def)

subsection \<open>Name resolution\<close>

lemma isNumeric_42: "isNumeric ''42''"
  by (simp add: isNumeric_def)

lemma Resolve_non_numeric:
  "\<not> isNumeric ident \<Longrightarrow> ni_Name (fst (fst (Resolve api nr ident))) = ident \<and> snd (Resolve api nr ident) = nr"
  by (simp add: Resolve_def fallback_NameInfo_def empty_NameInfo_def)

lemma Resolve_lookups_le: "lookups (snd (Resolve api nr ident)) \<le> Suc (lookups nr)"
  by (simp add: Resolve_def Let_def split: option.splits api_reply.splits api_body.splits)

lemma Resolve_lookups_mono: "lookups nr \<le> lookups (snd (Resolve api nr ident))"
  by (simp add: Resolve_def Let_def split: option.splits api_reply.splits api_body.splits)

lemma Resolve_cache_keeps:
  "cache nr ident = Some info \<Longrightarrow> cache (snd (Resolve api nr other)) ident = Some info"
  by (auto simp add: Resolve_def Let_def split: option.splits api_reply.splits api_body.splits)

lemma resolve_all_cache_keeps:
  "cache nr ident = Some info \<Longrightarrow> cache (resolve_all api nr ids) ident = Some info"
  by (induction ids arbitrary: nr) (simp_all add: Resolve_cache_keeps)

lemma Resolve_success_cached:
  "isNumeric ident \<Longrightarrow> Resolve api nr ident = ((info, None), nr') \<Longrightarrow> cache nr' ident = Some info"
  by (auto simp add: Resolve_def Let_def isNumeric_def split: option.splits api_reply.splits api_body.splits if_splits)

lemma Resolve_cached:
  "isNumeric ident \<Longrightarrow> cache nr ident = Some info \<Longrightarrow> Resolve api nr ident = ((info, None), nr)"
  by (auto simp add: Resolve_def isNumeric_def)

lemma Resolve_lookups_exact:
  "lookups (snd (Resolve api nr ident))
     = (if isNumeric ident \<and> cache nr ident = None then Suc (lookups nr) else lookups nr)"
  by (auto simp add: Resolve_def Let_def isNumeric_def
      split: option.splits api_reply.splits api_body.splits)

lemma Resolve_failure:
  assumes "isNumeric ident" and "Resolve api nr ident = ((finfo, Some err), nrf)"
  shows "finfo = fallback_NameInfo ident \<and> cache nrf = cache nr \<and> cache nrf ident = None
         \<and> lookups nrf = Suc (lookups nr)"
  using assms
  by (auto simp add: Resolve_def Let_def isNumeric_def
      split: option.splits api_reply.splits api_body.splits if_splits)

lemma Resolve_failure_retried:
  assumes "isNumeric ident" and "Resolve api nr ident = ((finfo, Some err), nrf)"
  shows "lookups (snd (Resolve api nrf ident)) = Suc (lookups nrf)"
proof -
  from Resolve_failure [OF assms] have "cache nrf ident = None" by blast
  with assms(1) show ?thesis by (simp only: Resolve_lookups_exact simp_thms if_True)
qed

text \<open>
  C8, amended. A non-numeric id is returned as its own name without a request and without
  touching the resolver; one call sends at most one request, and it sends one exactly when
  the id is numeric and not in the cache. Once a call for a numeric id has succeeded, every
  later call for it, after any other calls, returns the same NameInfo from the cache and
  sends no request. A call for a numeric id that fails returns the id as its own name,
  leaves the cache as it was, and the next call for the id asks the service again.
\<close>

theorem resolve_contract:
  "(\<not> isNumeric ident \<longrightarrow>
      ni_Name (fst (fst (Resolve api nr ident))) = ident \<and> snd (Resolve api nr ident) = nr)
   \<and> lookups (snd (Resolve api nr ident)) \<le> Suc (lookups nr)
   \<and> (isNumeric ident \<and> Resolve api nr ident = ((info, None), nr') \<longrightarrow>
        Resolve api (resolve_all api nr' ids) ident = ((info, None), resolve_all api nr' ids))
   \<and> lookups (snd (Resolve api nr ident))
        = (if isNumeric ident \<and> cache nr ident = None then Suc (lookups nr) else lookups nr)
   \<and> (isNumeric ident \<and> Resolve api nr ident = ((finfo, Some err), nrf) \<longrightarrow>
        finfo = fallback_NameInfo ident \<and> cache nrf = cache nr \<and> cache nrf ident = None
        \<and> lookups nrf = Suc (lookups nr)
        \<and> lookups (snd (Resolve api nrf ident)) = Suc (lookups nrf))"
proof (intro conjI impI)
  assume "\<not> isNumeric ident"
  then show "ni_Name (fst (fst (Resolve api nr ident))) = ident"
    and "snd (Resolve api nr ident) = nr"
    using Resolve_non_numeric [of ident api nr] by simp_all
next
  show "lookups (snd (Resolve api nr ident)) \<le> Suc (lookups nr)"
    by (rule Resolve_lookups_le)
next
  assume a: "isNumeric ident \<and> Resolve api nr ident = ((info, None), nr')"
  then have "cache nr' ident = Some info" using Resolve_success_cached by blast
  then have "cache (resolve_all api nr' ids) ident = Some info"
    by (rule resolve_all_cache_keeps)
  with a show "Resolve api (resolve_all api nr' ids) ident
      = ((info, None), resolve_all api nr' ids)"
    using Resolve_cached by blast
next
  show "lookups (snd (Resolve api nr ident))
        = (if isNumeric ident \<and> cache nr ident = None then Suc (lookups nr) else lookups nr)"
    by (rule Resolve_lookups_exact)
next
  assume f: "isNumeric ident \<and> Resolve api nr ident = ((finfo, Some err), nrf)"
  then have n: "isNumeric ident" and r: "Resolve api nr ident = ((finfo, Some err), nrf)"
    by simp_all
  show "finfo = fallback_NameInfo ident" and "cache nrf = cache nr"
    and "cache nrf ident = None" and "lookups nrf = Suc (lookups nr)"
    using Resolve_failure [OF n r] by blast+
  show "lookups (snd (Resolve api nrf ident)) = Suc (lookups nrf)"
    by (rule Resolve_failure_retried [OF n r])
qed

text \<open>
  C8 as stated fails: while the name service is down, two calls for the numeric id 42
  send two requests.
\<close>

theorem resolve_retry_counterexample:
  "isNumeric ''42'' \<and>
   lookups (snd (Resolve down_service (snd (Resolve down_service GetNameResolver ''42'')) ''42'')) = 2"
  by (simp add: Resolve_def isNumeric_def down_service_def GetNameResolver_def)

lemma echo_42:
  "Resolve echo_service GetNameResolver ''42'' =
        ((empty_NameInfo\<lparr>ni_ID := ''42'', ni_Name := ''cluster-42''\<rparr>, None),
         \<lparr>cache = [''42'' \<mapsto> empty_NameInfo\<lparr>ni_ID := ''42'', ni_Name := ''cluster-42''\<rparr>],
          lookups = 1\<rparr>)"
  by (simp add: Resolve_def isNumeric_def echo_service_def GetNameResolver_def)

lemma down_42:
  "Resolve down_service GetNameResolver ''42'' =
        ((fallback_NameInfo ''42'', Some (TransportError ''timeout'')),
         \<lparr>cache = Map.empty, lookups = 1\<rparr>)"
  by (simp add: Resolve_def isNumeric_def down_service_def GetNameResolver_def)

lemma echo_42_after_7:
  "lookups (snd (Resolve echo_service
         (resolve_all echo_service (snd (Resolve echo_service GetNameResolver ''42'')) [''7''])
         ''42'')) = 2"
  by (simp add: Resolve_def isNumeric_def echo_service_def GetNameResolver_def)

theorem resolve_contract_witness:
  "\<not> isNumeric ''tidb-abc''
   \<and> ni_Name (fst (fst (Resolve down_service GetNameResolver ''tidb-abc''))) = ''tidb-abc''
   \<and> snd (Resolve down_service GetNameResolver ''tidb-abc'') = GetNameResolver
   \<and> isNumeric ''42''
   \<and> Resolve echo_service GetNameResolver ''42'' =
        ((empty_NameInfo\<lparr>ni_ID := ''42'', ni_Name := ''cluster-42''\<rparr>, None),
         \<lparr>cache = [''42'' \<mapsto> empty_NameInfo\<lparr>ni_ID := ''42'', ni_Name := ''cluster-42''\<rparr>],
          lookups = 1\<rparr>)
   \<and> lookups (snd (Resolve echo_service
         (resolve_all echo_service (snd (Resolve echo_service GetNameResolver ''42'')) [''7''])
         ''42'')) = 2
   \<and> Resolve down_service GetNameResolver ''42'' =
        ((fallback_NameInfo ''42'', Some (TransportError ''timeout'')),
         \<lparr>cache = Map.empty, lookups = 1\<rparr>)
   \<and> lookups (snd (Resolve down_service \<lparr>cache = Map.empty, lookups = 1\<rparr> ''42'')) = 2"
proof -
  have n: "\<not> isNumeric ''tidb-abc''" "isNumeric ''42''" by (simp_all add: isNumeric_def)
  have "ni_Name (fst (fst (Resolve down_service GetNameResolver ''tidb-abc''))) = ''tidb-abc''
        \<and> snd (Resolve down_service GetNameResolver ''tidb-abc'') = GetNameResolver"
    using resolve_contract [where ident = "''tidb-abc''" and api = down_service
        and nr = GetNameResolver] n(1) by blast
  moreover have "lookups (snd (Resolve down_service \<lparr>cache = Map.empty, lookups = 1\<rparr> ''42''))
        = Suc (lookups \<lparr>cache = Map.empty, lookups = 1\<rparr>)"
    using resolve_contract [where ident = "''42''" and api = down_service
        and nr = GetNameResolver and finfo = "fallback_NameInfo ''42''"
        and err = "TransportError ''timeout''" and nrf = "\<lparr>cache = Map.empty, lookups = 1\<rparr>"]
      n(2) down_42 by blast
  ultimately show ?thesis using n echo_42 down_42 echo_42_after_7 by simp
qed


subsection \<open>The old-rules bucket\<close>

lemma selected_sql_and: "selected (sql_and a b) \<longleftrightarrow> selected a \<and> selected b"
  by (cases "(a, b)" rule: sql_and.cases) (auto simp: selected_def)

lemma selected_sql_all: "selected (sql_all cs) \<longleftrightarrow> (\<forall>c \<in> set cs. selected c)"
proof (induction cs)
  case Nil
  show ?case by (simp add: selected_def)
next
  case (Cons c cs)
  then show ?case by (simp add: selected_sql_and)
qed

lemma selected_sql_not: "selected (sql_not a) \<Longrightarrow> \<not> selected a"
  by (cases a) (auto simp: selected_def sql_not_def)

lemma reads_all_map_Reads: "reads_all (map Reads ys) = Reads ys"
  by (induction ys) simp_all

lemma reads_all_Reads: "reads_all xs = Reads ys \<Longrightarrow> xs = map Reads ys"
proof (induction xs arbitrary: ys)
  case Nil
  then show ?case by simp
next
  case (Cons x xs)
  then show ?case by (cases x) (auto split: reading.splits)
qed

lemma reads_all_Altered: "reads_all xs = Altered \<longleftrightarrow> Altered \<in> set xs"
proof (induction xs)
  case Nil
  show ?case by simp
next
  case (Cons x xs)
  then show ?case by (cases x) (auto split: reading.splits)
qed

text \<open>The listing's statement is read as written exactly when the values it splices
  hold no single quote.\<close>

lemma issues_componentCondition_reads:
  "issues_componentCondition cm name \<noteq> Altered
     \<longleftrightarrow> name = [] \<or> name = ''Serverless'' \<or> name = ''old-rules'' \<or> quote_free name"
  by (simp add: issues_componentCondition_def spliced_def quote_free_def)

lemma issues_where_Altered:
  "issues_where cm q s e = Altered
     \<longleftrightarrow> issues_componentCondition cm (q_component q) = Altered
         \<or> issues_tenantCondition (q_tenant_id q) = Altered
         \<or> issues_signatureCondition (q_signature q) = Altered
         \<or> issues_clusterCondition (q_cluster_id q) = Altered
         \<or> issues_priorityCondition (q_priority q) = Altered"
proof -
  have "issues_where cm q s e = Altered \<longleftrightarrow>
        reads_all
             [Reads is_alert_true,
              Reads (dashboard_envCondition (q_env q)),
              issues_componentCondition cm (q_component q),
              issues_tenantCondition (q_tenant_id q),
              issues_signatureCondition (q_signature q),
              issues_clusterCondition (q_cluster_id q),
              Reads (issues_categoryCondition (issues_category q)),
              Reads (issues_metricCondition (q_metric_type q)),
              issues_priorityCondition (q_priority q),
              Reads (created_between s e)] = Altered"
    unfolding issues_where_def reads_and_def by (simp split: reading.splits)
  then show ?thesis unfolding reads_all_Altered by auto
qed

lemma issues_where_reads:
  assumes "quote_free (q_component q)" and "quote_free (q_tenant_id q)"
    and "quote_free (q_signature q)" and "quote_free (q_cluster_id q)"
    and "quote_free (q_priority q)"
  shows "\<exists>w. issues_where cm q s e = Reads w"
proof -
  have "list_all quote_free (map strings_TrimSpace (split_on CHR '','' v))" if "quote_free v" for v
  proof -
    have trim: "set (strings_TrimSpace w) \<subseteq> set w" for w
      unfolding strings_TrimSpace_def
      using set_dropWhileD [of _ is_space] by (metis set_rev subsetI)
    have "\<forall>w \<in> set (split_on c u). set w \<subseteq> set u" for c u
      by (induction u) (auto split: list.splits if_splits)
    then show ?thesis using that trim
      by (fastforce simp: list_all_iff quote_free_def)
  qed
  with assms have "issues_where cm q s e \<noteq> Altered"
    by (simp add: issues_where_Altered issues_componentCondition_reads issues_tenantCondition_def
        issues_signatureCondition_def issues_clusterCondition_def issues_priorityCondition_def
        spliced_def Let_def)
  then show ?thesis by (cases "issues_where cm q s e") auto
qed

lemma reads_and_fragment:
  assumes "reads_and xs = Reads w" and "Reads c \<in> set xs" and "selected (w r)"
  shows "selected (c r)"
proof (cases "reads_all xs")
  case (Reads conds)
  then have "xs = map Reads conds" by (rule reads_all_Reads)
  with assms(2) have "c \<in> set conds" by auto
  moreover from assms(1) Reads have "w = (\<lambda>r. sql_all (map (\<lambda>c. c r) conds))"
    by (simp add: reads_and_def)
  ultimately show ?thesis using assms(3) by (simp add: selected_sql_all)
next
  case Altered
  with assms(1) show ?thesis by (simp add: reads_and_def)
qed

lemma reads_and_selected:
  assumes "reads_and (map Reads conds) = Reads w"
  shows "selected (w r) \<longleftrightarrow> (\<forall>c \<in> set conds. selected (c r))"
proof -
  from assms have "w = (\<lambda>r. sql_all (map (\<lambda>c. c r) conds))"
    by (simp add: reads_and_def reads_all_map_Reads)
  then show ?thesis by (simp add: selected_sql_all)
qed

lemma issues_where_fragment:
  assumes "issues_where cm q s e = Reads w" and "selected (w r)"
  shows "\<exists>c. issues_componentCondition cm (q_component q) = Reads c \<and> selected (c r)"
proof (cases "issues_componentCondition cm (q_component q)")
  case (Reads c)
  have "selected (c r)"
    by (rule reads_and_fragment [OF assms(1) [unfolded issues_where_def] _ assms(2)])
      (simp add: Reads)
  with Reads show ?thesis by blast
next
  case Altered
  then have "issues_where cm q s e = Altered" by (simp add: issues_where_Altered)
  with assms(1) show ?thesis by simp
qed

lemma example_in_window: "selected (created_between window_start window_end example_alert)"
  by (simp add: selected_def created_between_def sql_between_def sql_replace_def
      example_alert_def window_start_def window_end_def)

lemma example_old_rules: "selected (old_rules_condition example_alert)"
  by (simp add: selected_def old_rules_condition_def example_alert_def sql_eq_def sql_is_null_def sql_not_like_def to_lower_char_def)

lemma example_devtier: "selected (sql_like (c_biz_type example_alert) ''%devtier%'')"
  by (simp add: selected_def sql_like_def example_alert_def to_lower_char_def)

lemma example_component_old_rules:
  "selected (component_where no_cluster_filter no_categories ''old-rules'' ''all'' []
      window_start window_end example_alert)"
  using example_in_window example_old_rules
  by (simp add: component_where_def selected_sql_and no_cluster_filter_def
        component_stabilityCondition_def component_categoryCondition_def component_envCondition_def
        component_componentFilter_def is_alert_true_def)
    (simp add: selected_def sql_like_def example_alert_def)

lemma example_component_serverless:
  "selected (component_where no_cluster_filter no_categories ''Serverless'' ''all'' []
      window_start window_end example_alert)"
  using example_in_window example_devtier
  by (simp add: component_where_def selected_sql_and no_cluster_filter_def
        component_stabilityCondition_def component_categoryCondition_def component_envCondition_def
        component_componentFilter_def getCategory_def is_alert_true_def)
    (simp add: selected_def sql_like_def example_alert_def)

text \<open>
  C4 as stated fails: the example alert is counted in the old-rules bucket and, for the
  same window, in the Serverless component.
\<close>

theorem legacy_in_serverless_counterexample:
  "selected (component_where no_cluster_filter no_categories ''old-rules'' ''all'' []
      window_start window_end example_alert)
   \<and> selected (component_where no_cluster_filter no_categories ''Serverless'' ''all'' []
      window_start window_end example_alert)"
  using example_component_old_rules example_component_serverless by simp

lemma component_old_rules_selected:
  "selected (component_where cf cm ''old-rules'' env cat s e r) \<Longrightarrow> selected (old_rules_condition r)"
  by (simp add: component_where_def selected_sql_and component_stabilityCondition_def)

lemma component_governed_selected:
  assumes "name \<noteq> ''old-rules''" and "getCategory cm name \<noteq> ''Resilience''"
    and "getCategory cm name \<noteq> ''Serverless''"
    and "selected (component_where cf cm name env cat s e r)"
  shows "\<not> selected (old_rules_condition r)"
proof -
  from assms have "selected (sql_not (old_rules_condition r))"
    by (simp add: component_where_def selected_sql_and component_stabilityCondition_def)
  then show ?thesis by (rule selected_sql_not)
qed

lemma issues_old_rules_selected:
  assumes "issues_where cm (q\<lparr>q_component := ''old-rules''\<rparr>) s e = Reads w" and "selected (w r)"
  shows "selected (old_rules_condition r)"
  using issues_where_fragment [OF assms] by (simp add: issues_componentCondition_def)

lemma issues_governed_selected:
  assumes "name \<noteq> ''old-rules''" and "name \<noteq> []" and "getCategory cm name \<noteq> ''Resilience''"
    and "getCategory cm name \<noteq> ''Serverless''"
    and "issues_where cm (q\<lparr>q_component := name\<rparr>) s e = Reads w" and "selected (w r)"
  shows "\<not> selected (old_rules_condition r)"
proof -
  from assms(4) have "name \<noteq> ''Serverless''" by (auto simp: getCategory_def)
  with assms(1-4) issues_where_fragment [OF assms(5,6)]
  have "selected (sql_not (old_rules_condition r))"
    by (auto simp: issues_componentCondition_def spliced_def selected_sql_and split: if_splits)
  then show ?thesis by (rule selected_sql_not)
qed

lemma GetDashboardIssues_rows:
  assumes "GetDashboardIssues cm db q s e = Reads rows" and "r \<in> set rows"
  shows "\<exists>w. issues_where cm q s e = Reads w \<and> selected (w r) \<and> not_muted db r
           \<and> r \<in> set (t_issues db)"
  using assms
  by (auto simp add: GetDashboardIssues_def Let_def split: reading.splits
      dest!: in_set_takeD in_set_dropD)

lemma GetDashboardIssues_reads:
  "(\<exists>rows. GetDashboardIssues cm db q s e = Reads rows) \<longleftrightarrow> (\<exists>w. issues_where cm q s e = Reads w)"
  by (simp add: GetDashboardIssues_def Let_def split: reading.splits)

text \<open>
  C4, amended. In the component statistics (\<open>GetComponentStats\<close>) and in the issue
  listing (\<open>GetDashboardIssues\<close>), an issue counted in the old-rules bucket is not
  counted, for the same window, under any other component whose category is neither
  Resilience nor Serverless: no row passes both \<open>WHERE\<close> clauses, and the two listings
  share no row. The listing splices the component name and its other filters into the
  statement, and this holds of the statement read as written, which it is whenever the
  spliced values hold no single quote. Components of the categories Resilience and
  Serverless are not filtered by the bucket's predicate, and the component filter of the
  global dashboard (\<open>GetDashboardData\<close>) has no such exclusion at all.
\<close>

theorem legacy_bucket_exclusive:
  assumes "name \<noteq> ''old-rules''" and "name \<noteq> []"
    and "getCategory cm name \<noteq> ''Resilience''" and "getCategory cm name \<noteq> ''Serverless''"
  shows "\<not> (selected (component_where cf cm ''old-rules'' env cat s e r)
             \<and> selected (component_where cf cm name env' cat' s e r))
       \<and> (issues_where cm (q\<lparr>q_component := ''old-rules''\<rparr>) s e = Reads w
            \<and> issues_where cm (q'\<lparr>q_component := name\<rparr>) s e = Reads w'
          \<longrightarrow> \<not> (selected (w r) \<and> selected (w' r)))
       \<and> (GetDashboardIssues cm db (q\<lparr>q_component := ''old-rules''\<rparr>) s e = Reads rows
            \<and> GetDashboardIssues cm db (q'\<lparr>q_component := name\<rparr>) s e = Reads rows'
          \<longrightarrow> set rows \<inter> set rows' = {})
       \<and> (quote_free name \<and> quote_free (q_tenant_id q') \<and> quote_free (q_signature q')
            \<and> quote_free (q_cluster_id q') \<and> quote_free (q_priority q')
          \<longrightarrow> (\<exists>found. GetDashboardIssues cm db (q'\<lparr>q_component := name\<rparr>) s e = Reads found))"
proof (intro conjI impI)
  show "\<not> (selected (component_where cf cm ''old-rules'' env cat s e r)
             \<and> selected (component_where cf cm name env' cat' s e r))"
    using component_old_rules_selected [of cf cm env cat s e r]
      component_governed_selected [OF assms(1,3,4), of cf env' cat' s e r]
    by blast
next
  assume "issues_where cm (q\<lparr>q_component := ''old-rules''\<rparr>) s e = Reads w
            \<and> issues_where cm (q'\<lparr>q_component := name\<rparr>) s e = Reads w'"
  then show "\<not> (selected (w r) \<and> selected (w' r))"
    using issues_old_rules_selected [of cm q s e w r]
      issues_governed_selected [OF assms, of q' s e w' r]
    by blast
next
  assume both: "GetDashboardIssues cm db (q\<lparr>q_component := ''old-rules''\<rparr>) s e = Reads rows
            \<and> GetDashboardIssues cm db (q'\<lparr>q_component := name\<rparr>) s e = Reads rows'"
  show "set rows \<inter> set rows' = {}"
  proof (rule ccontr)
    assume "set rows \<inter> set rows' \<noteq> {}"
    then obtain x where x: "x \<in> set rows" "x \<in> set rows'" by blast
    from both x(1) obtain v where
      v: "issues_where cm (q\<lparr>q_component := ''old-rules''\<rparr>) s e = Reads v" "selected (v x)"
      using GetDashboardIssues_rows by blast
    from both x(2) obtain v' where
      v': "issues_where cm (q'\<lparr>q_component := name\<rparr>) s e = Reads v'" "selected (v' x)"
      using GetDashboardIssues_rows by blast
    from issues_old_rules_selected [OF v] issues_governed_selected [OF assms v']
    show False by blast
  qed
next
  assume "quote_free name \<and> quote_free (q_tenant_id q') \<and> quote_free (q_signature q')
            \<and> quote_free (q_cluster_id q') \<and> quote_free (q_priority q')"
  then have "\<exists>v. issues_where cm (q'\<lparr>q_component := name\<rparr>) s e = Reads v"
    by (intro issues_where_reads) simp_all
  then show "\<exists>found. GetDashboardIssues cm db (q'\<lparr>q_component := name\<rparr>) s e = Reads found"
    by (simp only: GetDashboardIssues_reads)
qed

text \<open>
  An instance where the exclusion alone decides: an alert of the old-rules bucket filed
  under tikv. Its component list matches the filter of tikv in both handlers; with tikv in
  no category of its own it is left out there by the bucket's predicate, and with tikv
  in the Resilience category it is counted under tikv as well.
\<close>

lemma tikv_alert_columns:
  "c_is_alert tikv_alert = Some True"
  "c_stability_governance tikv_alert = c_stability_governance example_alert"
  "c_biz_type tikv_alert = c_biz_type example_alert"
  "c_created tikv_alert = c_created example_alert"
  "c_components tikv_alert = Some (''['' @ [CHR 0x22] @ ''tikv'' @ [CHR 0x22] @ '']'')"
  by (simp_all add: tikv_alert_def example_alert_def)

lemma tikv_in_window: "selected (created_between window_start window_end tikv_alert)"
  using example_in_window by (simp add: created_between_def tikv_alert_columns)

lemma tikv_old_rules: "selected (old_rules_condition tikv_alert)"
  using example_old_rules by (simp add: old_rules_condition_def tikv_alert_columns)

lemma tikv_component_match:
  "selected (sql_like (c_components tikv_alert) (component_componentFilter ''tikv''))"
  by (simp add: tikv_alert_columns component_componentFilter_def sql_like_def selected_def
      to_lower_char_def)

lemma tikv_listing_match: "selected (sql_like (c_components tikv_alert) (''%'' @ ''tikv'' @ ''%''))"
  by (simp add: tikv_alert_columns sql_like_def selected_def to_lower_char_def)

lemma tikv_component_old_rules:
  "selected (component_where no_cluster_filter no_categories ''old-rules'' ''all'' []
      window_start window_end tikv_alert)"
  using tikv_in_window tikv_old_rules
  by (simp add: component_where_def selected_sql_and no_cluster_filter_def
        component_stabilityCondition_def component_categoryCondition_def component_envCondition_def
        component_componentFilter_def is_alert_true_def tikv_alert_columns)
    (simp add: selected_def sql_like_def)

lemma tikv_component_resilience:
  "selected (component_where no_cluster_filter resilience_categories ''tikv'' ''all'' []
      window_start window_end tikv_alert)"
  using tikv_in_window tikv_component_match
  by (simp add: component_where_def selected_sql_and no_cluster_filter_def
        component_stabilityCondition_def component_categoryCondition_def component_envCondition_def
        is_alert_true_def tikv_alert_columns getCategory_def resilience_categories_def)
    (simp add: selected_def)

lemma plain_where:
  "n \<noteq> ''Serverless'' \<Longrightarrow>
   issues_where cm (plain_query\<lparr>q_component := n\<rparr>) s e =
     (case issues_componentCondition cm n of
        Reads c \<Rightarrow> Reads (\<lambda>r. sql_all [is_alert_true r, Some True, c r, Some True, Some True,
                      Some True, Some True, Some True, Some True, created_between s e r])
      | Altered \<Rightarrow> Altered)"
  by (simp add: issues_where_def reads_and_def plain_query_def dashboard_envCondition_def
      issues_tenantCondition_def issues_signatureCondition_def issues_clusterCondition_def
      issues_categoryCondition_def issues_category_def issues_metricCondition_def
      issues_priorityCondition_def split: reading.splits)

lemma plain_listing:
  "n \<noteq> ''Serverless'' \<Longrightarrow> issues_componentCondition cm n = Reads c \<Longrightarrow>
   GetDashboardIssues cm \<lparr>t_issues = [x], t_muted_issues = []\<rparr> (plain_query\<lparr>q_component := n\<rparr>) s e
     = Reads (if selected (is_alert_true x) \<and> selected (c x) \<and> selected (created_between s e x)
              then [x] else [])"
  by (simp add: GetDashboardIssues_def plain_where Let_def not_muted_def selected_sql_and)
    (auto simp add: plain_query_def selected_def)

lemma tikv_listing_old_rules:
  "GetDashboardIssues no_categories \<lparr>t_issues = [tikv_alert], t_muted_issues = []\<rparr>
     (plain_query\<lparr>q_component := ''old-rules''\<rparr>) window_start window_end = Reads [tikv_alert]"
  using tikv_in_window tikv_old_rules
  by (subst plain_listing [where c = old_rules_condition])
    (simp_all add: issues_componentCondition_def is_alert_true_def tikv_alert_columns selected_def)

lemma tikv_listing_resilience:
  "GetDashboardIssues resilience_categories \<lparr>t_issues = [tikv_alert], t_muted_issues = []\<rparr>
     (plain_query\<lparr>q_component := ''tikv''\<rparr>) window_start window_end = Reads [tikv_alert]"
proof -
  have "issues_componentCondition resilience_categories ''tikv''
          = Reads (\<lambda>r. sql_and (Some True) (sql_like (c_components r) (''%'' @ ''tikv'' @ ''%'')))"
    by (simp add: issues_componentCondition_def spliced_def quote_free_def getCategory_def
        resilience_categories_def)
  from plain_listing [OF _ this] tikv_in_window tikv_listing_match show ?thesis
    by (simp add: selected_sql_and is_alert_true_def tikv_alert_columns)
      (simp add: selected_def)
qed

theorem legacy_bucket_exclusive_witness:
  "selected (component_where no_cluster_filter no_categories ''old-rules'' ''all'' []
      window_start window_end tikv_alert)
   \<and> selected (sql_like (c_components tikv_alert) (component_componentFilter ''tikv''))
   \<and> \<not> selected (component_where no_cluster_filter no_categories ''tikv'' ''all'' []
      window_start window_end tikv_alert)
   \<and> selected (component_where no_cluster_filter resilience_categories ''tikv'' ''all'' []
      window_start window_end tikv_alert)
   \<and> GetDashboardIssues no_categories \<lparr>t_issues = [tikv_alert], t_muted_issues = []\<rparr>
       (plain_query\<lparr>q_component := ''old-rules''\<rparr>) window_start window_end = Reads [tikv_alert]
   \<and> selected (sql_like (c_components tikv_alert) (''%'' @ ''tikv'' @ ''%''))
   \<and> GetDashboardIssues no_categories \<lparr>t_issues = [tikv_alert], t_muted_issues = []\<rparr>
       (plain_query\<lparr>q_component := ''tikv''\<rparr>) window_start window_end = Reads []
   \<and> GetDashboardIssues resilience_categories \<lparr>t_issues = [tikv_alert], t_muted_issues = []\<rparr>
       (plain_query\<lparr>q_component := ''tikv''\<rparr>) window_start window_end = Reads [tikv_alert]"
proof -
  let ?db = "\<lparr>t_issues = [tikv_alert], t_muted_issues = []\<rparr>"
  have name: "''tikv'' \<noteq> ''old-rules''" "''tikv'' \<noteq> []"
    "getCategory no_categories ''tikv'' \<noteq> ''Resilience''"
    "getCategory no_categories ''tikv'' \<noteq> ''Serverless''"
    by (simp_all add: getCategory_def no_categories_def)
  have free: "quote_free ''tikv'' \<and> quote_free (q_tenant_id plain_query)
      \<and> quote_free (q_signature plain_query) \<and> quote_free (q_cluster_id plain_query)
      \<and> quote_free (q_priority plain_query)"
    by (simp add: quote_free_def plain_query_def)
  note excl = legacy_bucket_exclusive [OF name, where cf = no_cluster_filter and env = "''all''"
      and cat = "[]" and env' = "''all''" and cat' = "[]" and s = window_start and e = window_end
      and r = tikv_alert and q = plain_query and q' = plain_query and db = ?db
      and rows = "[tikv_alert]"]
  from excl [where rows' = "[]"] free obtain found where
    found: "GetDashboardIssues no_categories ?db (plain_query\<lparr>q_component := ''tikv''\<rparr>)
              window_start window_end = Reads found"
    by blast
  from excl [where rows' = found] found tikv_listing_old_rules
  have "set [tikv_alert] \<inter> set found = {}" by blast
  moreover have "set found \<subseteq> {tikv_alert}"
    using GetDashboardIssues_rows [OF found] by auto
  ultimately have "found = []" by (cases found) auto
  with found have listing: "GetDashboardIssues no_categories ?db
      (plain_query\<lparr>q_component := ''tikv''\<rparr>) window_start window_end = Reads []"
    by simp
  from excl [where rows' = "[]"] tikv_component_old_rules
  have stats: "\<not> selected (component_where no_cluster_filter no_categories ''tikv'' ''all'' []
      window_start window_end tikv_alert)"
    by blast
  from tikv_component_old_rules tikv_component_match stats tikv_component_resilience
    tikv_listing_old_rules tikv_listing_match listing tikv_listing_resilience
  show ?thesis by blast
qed

lemma dashboard_where_selected:
  assumes "dashboard_where envStr f s e = Reads w"
  shows "selected (w r) \<longleftrightarrow>
           selected (is_alert_true r) \<and> selected (dashboard_envCondition envStr r)
           \<and> (\<exists>c. dashboard_filterCondition f = Reads c \<and> selected (c r))
           \<and> selected (created_between s e r)"
  using assms
  by (cases "dashboard_filterCondition f")
    (auto simp: dashboard_where_def reads_and_def selected_sql_and selected_def [of "Some True"])

lemma dashboard_where_reads:
  "dashboard_filterCondition f = Reads c \<Longrightarrow> \<exists>w. dashboard_where envStr f s e = Reads w"
  by (simp add: dashboard_where_def reads_and_def)

lemma fetchStats_single:
  assumes "dashboard_filterCondition f = Reads c"
    and "selected (is_alert_true x)" and "selected (dashboard_envCondition envStr x)"
    and "selected (c x)" and "selected (created_between s e x)"
  shows "fetchStats \<lparr>t_issues = [x], t_muted_issues = m\<rparr> envStr f s e
           = Reads (1,
               if selected (sql_like (c_alert_signature x) ''[PROD]%'') then 1 else 0,
               if selected (sql_not_like (c_alert_signature x) ''[PROD]%'') then 1 else 0,
               if selected (sql_eq (c_priority x) ''Critical'') then 1 else 0)"
proof -
  from dashboard_where_reads [OF assms(1)] obtain w where
    w: "dashboard_where envStr f s e = Reads w" by blast
  from dashboard_where_selected [OF w, of x] assms have "selected (w x)" by simp
  then show ?thesis by (simp add: fetchStats_def w)
qed

lemma no_filters_reads:
  "dashboard_filterCondition no_filters
     = Reads (\<lambda>r. sql_all [Some True, Some True, Some True, Some True])"
  by (simp add: dashboard_filterCondition_def reads_and_def no_filters_def)

lemma component_filter_reads:
  "dashboard_filterCondition (no_filters\<lparr>f_component := ''tikv''\<rparr>)
     = Reads (\<lambda>r. sql_all [sql_like (c_components r) (''%'' @ ''tikv'' @ ''%''),
                           Some True, Some True, Some True])"
  by (simp add: dashboard_filterCondition_def reads_and_def no_filters_def spliced_def
      quote_free_def)

text \<open>The component filter of the global dashboard is the substring match alone: the
  same alert is counted there under tikv.\<close>

lemma dashboard_component_no_exclusion:
  "fetchStats \<lparr>t_issues = [tikv_alert], t_muted_issues = []\<rparr> ''all''
     (no_filters\<lparr>f_component := ''tikv''\<rparr>) window_start window_end = Reads (1, 1, 0, 1)"
proof -
  have "selected (sql_all [sql_like (c_components tikv_alert) (''%'' @ ''tikv'' @ ''%''),
                           Some True, Some True, Some True])"
    using tikv_listing_match by (simp add: selected_sql_and) (simp add: selected_def)
  from fetchStats_single [OF component_filter_reads _ _ this tikv_in_window,
      where envStr = "''all''" and m = "[]"]
  show ?thesis
    by (simp add: is_alert_true_def dashboard_envCondition_def tikv_alert_columns)
      (simp add: selected_def tikv_alert_def example_alert_def sql_like_def sql_not_like_def
        sql_eq_def to_lower_char_def)
qed

subsection \<open>Muted issues\<close>

text \<open>
  C2 at a concrete store: after the example alert is muted, the issue listing leaves it
  out, but the dashboard total and the component total still count it.
\<close>

theorem muted_issue_still_counted:
  "fst (MuteIssue example_store ''O11Y-1'') = 200
   \<and> fetchStats (snd (MuteIssue example_store ''O11Y-1'')) ''all'' no_filters
        window_start window_end = Reads (1, 1, 0, 1)
   \<and> GetComponentStats_total no_cluster_filter no_categories
        (snd (MuteIssue example_store ''O11Y-1'')) ''old-rules'' ''all'' [] window_start window_end = 1
   \<and> GetDashboardIssues no_categories (snd (MuteIssue example_store ''O11Y-1'')) plain_query
        window_start window_end = Reads []"
proof -
  have "issues_where no_categories plain_query window_start window_end \<noteq> Altered"
    by (simp add: issues_where_Altered issues_componentCondition_def issues_tenantCondition_def
        issues_signatureCondition_def issues_clusterCondition_def issues_priorityCondition_def
        plain_query_def)
  then have listing: "GetDashboardIssues no_categories (snd (MuteIssue example_store ''O11Y-1''))
      plain_query window_start window_end = Reads []"
    by (cases "issues_where no_categories plain_query window_start window_end")
      (simp_all add: GetDashboardIssues_def MuteIssue_def example_store_def not_muted_def
        example_alert_def Let_def)
  have "selected (sql_all [Some True, Some True, Some True, Some True])"
    by (simp add: selected_def)
  from fetchStats_single [OF no_filters_reads _ _ this example_in_window,
      where envStr = "''all''"
        and m = "[\<lparr>m_issue_id = ''O11Y-1'', m_reason = ''User muted via dashboard''\<rparr>]"]
  have "fetchStats \<lparr>t_issues = [example_alert],
           t_muted_issues = [\<lparr>m_issue_id = ''O11Y-1'', m_reason = ''User muted via dashboard''\<rparr>]\<rparr>
          ''all'' no_filters window_start window_end = Reads (1, 1, 0, 1)"
    by (simp add: is_alert_true_def dashboard_envCondition_def)
      (simp add: selected_def example_alert_def sql_like_def sql_not_like_def
        sql_eq_def to_lower_char_def)
  then have stats: "fetchStats (snd (MuteIssue example_store ''O11Y-1'')) ''all'' no_filters
        window_start window_end = Reads (1, 1, 0, 1)"
    by (simp add: MuteIssue_def example_store_def)
  show ?thesis
    using example_component_old_rules listing stats
    by (simp add: MuteIssue_def example_store_def GetComponentStats_total_def count_where_def)
qed

text \<open>The totals of the dashboard and of the component statistics do not read the
  \<open>muted_issues\<close> table at all.\<close>

lemma aggregates_ignore_muted:
  "fetchStats (db\<lparr>t_muted_issues := m\<rparr>) envStr f s e = fetchStats db envStr f s e"
  "GetComponentStats_total cf cm (db\<lparr>t_muted_issues := m\<rparr>) name envStr cat s e
     = GetComponentStats_total cf cm db name envStr cat s e"
  by (simp_all add: fetchStats_def GetComponentStats_total_def split: reading.splits)

text \<open>The issue listing itself never returns a muted issue.\<close>

lemma listing_excludes_muted:
  "GetDashboardIssues cm db q s e = Reads rows \<Longrightarrow> r \<in> set rows
     \<Longrightarrow> c_id r \<notin> set (map m_issue_id (t_muted_issues db))"
  using GetDashboardIssues_rows [of cm db q s e rows r] by (auto simp: not_muted_def)

subsection \<open>Extraction and upsert\<close>

lemma ticket_fields:
  "ID (extract_ticket_fields lib t) = Key t
   \<and> Title (extract_ticket_fields lib t) = Fields_Summary t
   \<and> IsAlert (extract_ticket_fields lib t) = isAlert (unicode_ToLower lib) (Fields_Description t) (Fields_Summary t)
   \<and> AlertSignature (extract_ticket_fields lib t) =
       (if isAlert (unicode_ToLower lib) (Fields_Description t) (Fields_Summary t) then Fields_Summary t else [])"
  by (simp add: extract_ticket_fields_def Let_def split: option.splits prod.splits)

lemma alert_fields_keep:
  "ID (extract_alert_fields lib t d) = ID d \<and> Title (extract_alert_fields lib t d) = Title d
   \<and> IsAlert (extract_alert_fields lib t d) = IsAlert d
   \<and> AlertSignature (extract_alert_fields lib t d) = AlertSignature d"
  by (simp add: extract_alert_fields_def Let_def split: option.splits)

lemma description_fallback_keep:
  "ID (description_fallback lib d) = ID d \<and> Title (description_fallback lib d) = Title d
   \<and> IsAlert (description_fallback lib d) = IsAlert d
   \<and> AlertSignature (description_fallback lib d) = AlertSignature d"
  by (simp add: description_fallback_def)

lemma resolve_tenant_keep:
  "ID (fst (resolve_tenant api nr d)) = ID d \<and> Title (fst (resolve_tenant api nr d)) = Title d
   \<and> IsAlert (fst (resolve_tenant api nr d)) = IsAlert d
   \<and> AlertSignature (fst (resolve_tenant api nr d)) = AlertSignature d"
  by (simp add: resolve_tenant_def split: prod.splits)

lemma extract_fixed_fields:
  "ID (fst (extractIssueData lib api nr t)) = Key t
   \<and> Title (fst (extractIssueData lib api nr t)) = Fields_Summary t
   \<and> IsAlert (fst (extractIssueData lib api nr t)) = isAlert (unicode_ToLower lib) (Fields_Description t) (Fields_Summary t)
   \<and> AlertSignature (fst (extractIssueData lib api nr t)) =
       (if isAlert (unicode_ToLower lib) (Fields_Description t) (Fields_Summary t) then Fields_Summary t else [])"
  unfolding extractIssueData_def
  by (simp only: resolve_tenant_keep description_fallback_keep alert_fields_keep ticket_fields)

lemma upsert_rows_of_key:
  "filter (\<lambda>r. c_id r = ID d) (t_issues (snd (insertOrUpdateIssue True db d))) = [row_of_IssueData d]"
proof -
  have "filter (\<lambda>r. c_id r = ID d) (filter (\<lambda>r. c_id r \<noteq> ID d) (t_issues db)) = []"
    by (induction "t_issues db") (auto simp: filter_empty_conv)
  then show ?thesis
    by (simp add: insertOrUpdateIssue_def row_of_IssueData_def)
qed

lemma upsert_distinct:
  "distinct (map c_id (t_issues db)) \<Longrightarrow> distinct (map c_id (t_issues (snd (insertOrUpdateIssue ok db d))))"
  by (auto simp add: insertOrUpdateIssue_def row_of_IssueData_def distinct_map_filter)

lemma processIssue_store:
  "fst (snd (processIssue lib api ok st t))
     = snd (insertOrUpdateIssue ok (fst st) (fst (extractIssueData lib api (snd st) t)))"
  by (simp add: processIssue_def split: prod.splits)

lemma processIssue_distinct:
  "distinct (map c_id (t_issues (fst st)))
     \<Longrightarrow> distinct (map c_id (t_issues (fst (snd (processIssue lib api ok st t)))))"
  by (simp only: processIssue_store upsert_distinct)

lemma process_all_distinct:
  "distinct (map c_id (t_issues (fst st)))
     \<Longrightarrow> distinct (map c_id (t_issues (fst (snd (process_all lib api st steps)))))"
proof (induction steps arbitrary: st)
  case Nil
  then show ?case by simp
next
  case (Cons step steps)
  obtain ok t where step: "step = (ok, t)" by (cases step)
  obtain r st' where p: "processIssue lib api ok st t = (r, st')" by (cases "processIssue lib api ok st t")
  have "distinct (map c_id (t_issues (fst st')))"
    using processIssue_distinct [OF Cons.prems, of lib api ok t] p by simp
  then have "distinct (map c_id (t_issues (fst (snd (process_all lib api st' steps)))))"
    by (rule Cons.IH)
  then show ?case using step p by (auto split: prod.splits)
qed

lemma ticket_fields_copied:
  "Description (extract_ticket_fields lib t) = Fields_Description t
   \<and> Created (extract_ticket_fields lib t) = convertToUTC lib (Fields_Created t)
   \<and> Project (extract_ticket_fields lib t) = Fields_Project t"
  by (simp add: extract_ticket_fields_def Let_def split: option.splits prod.splits)

lemma alert_fields_keep_copied:
  "Description (extract_alert_fields lib t d) = Description d
   \<and> Created (extract_alert_fields lib t d) = Created d
   \<and> Project (extract_alert_fields lib t d) = Project d"
  by (simp add: extract_alert_fields_def Let_def split: option.splits)

lemma description_fallback_keep_copied:
  "Description (description_fallback lib d) = Description d
   \<and> Created (description_fallback lib d) = Created d
   \<and> Project (description_fallback lib d) = Project d"
  by (simp add: description_fallback_def)

lemma resolve_tenant_keep_copied:
  "Description (fst (resolve_tenant api nr d)) = Description d
   \<and> Created (fst (resolve_tenant api nr d)) = Created d
   \<and> Project (fst (resolve_tenant api nr d)) = Project d"
  by (simp add: resolve_tenant_def split: prod.splits)

lemma extract_copied_fields:
  "Description (fst (extractIssueData lib api nr t)) = Fields_Description t
   \<and> Created (fst (extractIssueData lib api nr t)) = convertToUTC lib (Fields_Created t)
   \<and> Project (fst (extractIssueData lib api nr t)) = Fields_Project t"
  unfolding extractIssueData_def
  by (simp only: resolve_tenant_keep_copied description_fallback_keep_copied
      alert_fields_keep_copied ticket_fields_copied)

lemma upsert_row_columns:
  "rows_with_key (ID d) (snd (insertOrUpdateIssue True db d)) =
     [\<lparr>c_id = ID d, c_title = Some (Title d), c_description = Some (Description d),
       c_created = Some (Created d), c_priority = Some (Priority d), c_labels = Some (Labels d),
       c_issue_type = Some (IssueType d), c_components = Some (Components d),
       c_project = Some (Project d), c_is_alert = Some (IsAlert d),
       c_alert_signature = Some (AlertSignature d), c_cluster_id = Some (ClusterID d),
       c_tenant_id = Some (TenantID d), c_biz_type = Some (BizType d),
       c_status = Some (Status d), c_is_subtask = Some (IsSubtask d),
       c_stability_governance = Some (StabilityGovernance d),
       c_visibility = Some (Visibility d), c_component_name = Some (ComponentName d),
       c_source_component = Some (SourceComponent d), c_alert_group = Some (AlertGroup d),
       c_created_at = None\<rparr>]"
  using upsert_rows_of_key [of d db] by (simp add: rows_with_key_def row_of_IssueData_def)

text \<open>
  C3. Whatever tickets are processed and whichever statements fail, a store without
  duplicate keys stays without duplicate keys. When a ticket is ingested and then a ticket
  with the same key is ingested again and the database executes the second statement, the
  store holds exactly one row for the key, and each of its 21 columns holds the value that
  the second ingestion derived (which may differ from the first, the ticket or the name
  resolver having moved on); of these, title, description, creation stamp and project are
  those of the second ticket.
\<close>

theorem upsert_idempotent:
  "(distinct (map c_id (t_issues (fst st)))
      \<longrightarrow> distinct (map c_id (t_issues (fst (snd (process_all lib api st steps))))))
   \<and> (Key t' = Key t \<longrightarrow>
        (let st1 = snd (processIssue lib api okFirst st t);
             d2 = fst (extractIssueData lib api (snd st1) t');
             db2 = fst (snd (processIssue lib api True st1 t'))
         in rows_with_key (Key t) db2 =
              [\<lparr>c_id = Key t, c_title = Some (Title d2), c_description = Some (Description d2),
                c_created = Some (Created d2), c_priority = Some (Priority d2),
                c_labels = Some (Labels d2), c_issue_type = Some (IssueType d2),
                c_components = Some (Components d2), c_project = Some (Project d2),
                c_is_alert = Some (IsAlert d2), c_alert_signature = Some (AlertSignature d2),
                c_cluster_id = Some (ClusterID d2), c_tenant_id = Some (TenantID d2),
                c_biz_type = Some (BizType d2), c_status = Some (Status d2),
                c_is_subtask = Some (IsSubtask d2),
                c_stability_governance = Some (StabilityGovernance d2),
                c_visibility = Some (Visibility d2),
                c_component_name = Some (ComponentName d2),
                c_source_component = Some (SourceComponent d2),
                c_alert_group = Some (AlertGroup d2), c_created_at = None\<rparr>]
            \<and> Title d2 = Fields_Summary t' \<and> Description d2 = Fields_Description t'
            \<and> Created d2 = convertToUTC lib (Fields_Created t')
            \<and> Project d2 = Fields_Project t'))"
proof -
  have "Key t' = Key t \<Longrightarrow> ?thesis"
  proof -
    assume k: "Key t' = Key t"
    define st1 where "st1 = snd (processIssue lib api okFirst st t)"
    define d2 where "d2 = fst (extractIssueData lib api (snd st1) t')"
    have id: "ID d2 = Key t" using k by (simp add: d2_def extract_fixed_fields)
    have db2: "fst (snd (processIssue lib api True st1 t'))
                 = snd (insertOrUpdateIssue True (fst st1) d2)"
      by (simp add: processIssue_store d2_def)
    have rows: "rows_with_key (Key t) (fst (snd (processIssue lib api True st1 t'))) =
       [\<lparr>c_id = Key t, c_title = Some (Title d2), c_description = Some (Description d2),
         c_created = Some (Created d2), c_priority = Some (Priority d2),
         c_labels = Some (Labels d2), c_issue_type = Some (IssueType d2),
         c_components = Some (Components d2), c_project = Some (Project d2),
         c_is_alert = Some (IsAlert d2), c_alert_signature = Some (AlertSignature d2),
         c_cluster_id = Some (ClusterID d2), c_tenant_id = Some (TenantID d2),
         c_biz_type = Some (BizType d2), c_status = Some (Status d2),
         c_is_subtask = Some (IsSubtask d2),
         c_stability_governance = Some (StabilityGovernance d2),
         c_visibility = Some (Visibility d2),
         c_component_name = Some (ComponentName d2),
         c_source_component = Some (SourceComponent d2),
         c_alert_group = Some (AlertGroup d2), c_created_at = None\<rparr>]"
      using upsert_row_columns [of d2 "fst st1"] unfolding db2 id .
    have copied: "Title d2 = Fields_Summary t'" "Description d2 = Fields_Description t'"
      "Created d2 = convertToUTC lib (Fields_Created t')" "Project d2 = Fields_Project t'"
      by (simp_all add: d2_def extract_fixed_fields extract_copied_fields)
    show ?thesis
      using process_all_distinct [of st lib api steps] rows copied
      unfolding Let_def st1_def [symmetric] d2_def [symmetric]
      by blast
  qed
  then show ?thesis using process_all_distinct [of st lib api steps] by blast
qed

text \<open>
  An instance where the second ingestion changes the row: the name service fails on its
  first request and answers afterwards, so the first ingestion of the ticket stores an
  empty tenant and the second one, of the very same ticket, stores the tenant looked up.
\<close>

lemma ticket_fields_empty:
  "ClusterID (extract_ticket_fields lib t) = [] \<and> TenantID (extract_ticket_fields lib t) = []
   \<and> BizType (extract_ticket_fields lib t) = []"
  by (simp add: extract_ticket_fields_def Let_def split: option.splits prod.splits)

lemma no_raw_alert_data:
  "Fields_RawAlertData t = None \<Longrightarrow> extract_alert_fields lib t d = d"
  by (simp add: extract_alert_fields_def)

lemma cluster_capture:
  "description_capture cluster_lib ClusterIdPattern descr = ''123''"
  "description_capture cluster_lib TenantIdPattern descr = []"
  "description_capture cluster_lib BizTypePattern descr = []"
  by (simp_all add: description_capture_def cluster_lib_def cluster_submatch_def
      strings_TrimSpace_def is_space_def Let_def)

lemma cluster_ticket_fallback:
  "ClusterID (description_fallback cluster_lib
      (extract_alert_fields cluster_lib cluster_ticket
         (extract_ticket_fields cluster_lib cluster_ticket))) = ''123''"
  "TenantID (description_fallback cluster_lib
      (extract_alert_fields cluster_lib cluster_ticket
         (extract_ticket_fields cluster_lib cluster_ticket))) = []"
proof -
  have raw: "Fields_RawAlertData cluster_ticket = None" by (simp add: cluster_ticket_def)
  show "ClusterID (description_fallback cluster_lib
      (extract_alert_fields cluster_lib cluster_ticket
         (extract_ticket_fields cluster_lib cluster_ticket))) = ''123''"
    and "TenantID (description_fallback cluster_lib
      (extract_alert_fields cluster_lib cluster_ticket
         (extract_ticket_fields cluster_lib cluster_ticket))) = []"
    by (simp_all add: no_raw_alert_data [OF raw] description_fallback_def ticket_fields_empty
        cluster_capture)
qed

lemma recovering_123:
  "Resolve recovering_service GetNameResolver ''123''
     = ((fallback_NameInfo ''123'', Some (TransportError ''timeout'')),
        \<lparr>cache = Map.empty, lookups = 1\<rparr>)"
  "fst (Resolve recovering_service \<lparr>cache = Map.empty, lookups = 1\<rparr> ''123'')
     = (empty_NameInfo\<lparr>ni_ID := ''123'', ni_Name := ''cluster-123'', ni_TenantID := ''t-9''\<rparr>,
        None)"
  by (simp_all add: Resolve_def isNumeric_def recovering_service_def GetNameResolver_def)

lemma cluster_ticket_first:
  "TenantID (fst (extractIssueData cluster_lib recovering_service GetNameResolver cluster_ticket)) = []"
  "snd (extractIssueData cluster_lib recovering_service GetNameResolver cluster_ticket)
     = \<lparr>cache = Map.empty, lookups = 1\<rparr>"
  by (simp_all add: extractIssueData_def resolve_tenant_def cluster_ticket_fallback
      recovering_123)

lemma cluster_ticket_second:
  "TenantID (fst (extractIssueData cluster_lib recovering_service
      \<lparr>cache = Map.empty, lookups = 1\<rparr> cluster_ticket)) = ''t-9''"
  using recovering_123(2)
  by (simp add: extractIssueData_def resolve_tenant_def cluster_ticket_fallback
      split_beta empty_NameInfo_def)

lemma cluster_ticket_first_state:
  "snd (processIssue cluster_lib recovering_service True (empty_store, GetNameResolver)
      cluster_ticket)
     = (snd (insertOrUpdateIssue True empty_store
              (fst (extractIssueData cluster_lib recovering_service GetNameResolver
                 cluster_ticket))),
        \<lparr>cache = Map.empty, lookups = 1\<rparr>)"
  using cluster_ticket_first(2) by (simp add: processIssue_def split_beta)

lemma cluster_ticket_first_row:
  "map c_tenant_id (rows_with_key ''O11Y-9''
      (fst (snd (processIssue cluster_lib recovering_service True (empty_store, GetNameResolver)
         cluster_ticket)))) = [Some []]"
proof -
  let ?d = "fst (extractIssueData cluster_lib recovering_service GetNameResolver cluster_ticket)"
  have id: "ID ?d = ''O11Y-9''" by (simp add: extract_fixed_fields cluster_ticket_def)
  have "map c_tenant_id (rows_with_key (ID ?d) (snd (insertOrUpdateIssue True empty_store ?d)))
          = [Some (TenantID ?d)]"
    by (simp only: upsert_row_columns list.map issue_row.simps)
  then show ?thesis
    by (simp only: id cluster_ticket_first_state cluster_ticket_first fst_conv snd_conv)
qed

theorem upsert_idempotent_witness:
  "map c_tenant_id (rows_with_key ''O11Y-9''
      (fst (snd (processIssue cluster_lib recovering_service True (empty_store, GetNameResolver)
         cluster_ticket)))) = [Some []]
   \<and> map c_tenant_id (rows_with_key ''O11Y-9''
      (fst (snd (processIssue cluster_lib recovering_service True
         (snd (processIssue cluster_lib recovering_service True (empty_store, GetNameResolver)
            cluster_ticket)) cluster_ticket)))) = [Some ''t-9'']
   \<and> map c_title (rows_with_key ''O11Y-9''
      (fst (snd (processIssue cluster_lib recovering_service True
         (snd (processIssue cluster_lib recovering_service True (empty_store, GetNameResolver)
            cluster_ticket))
         (cluster_ticket\<lparr>Fields_Summary := ''[PROD] TiKV recovered''\<rparr>)))))
       = [Some ''[PROD] TiKV recovered'']
   \<and> distinct (map c_id (t_issues (fst (snd (process_all cluster_lib recovering_service
      (empty_store, GetNameResolver)
      [(True, cluster_ticket), (False, example_ticket), (True, cluster_ticket)])))))"
proof -
  let ?st1 = "snd (processIssue cluster_lib recovering_service True
                (empty_store, GetNameResolver) cluster_ticket)"
  let ?t' = "cluster_ticket\<lparr>Fields_Summary := ''[PROD] TiKV recovered''\<rparr>"
  have k: "Key cluster_ticket = ''O11Y-9''" "Key ?t' = Key cluster_ticket"
    by (simp_all add: cluster_ticket_def)
  have e: "distinct (map c_id (t_issues (fst (empty_store, GetNameResolver))))"
    by (simp add: empty_store_def)
  have nr1: "snd ?st1 = \<lparr>cache = Map.empty, lookups = 1\<rparr>"
    by (simp only: cluster_ticket_first_state snd_conv)
  note same = upsert_idempotent [where st = "(empty_store, GetNameResolver)"
      and lib = cluster_lib and api = recovering_service and t = cluster_ticket
      and t' = cluster_ticket and okFirst = True
      and steps = "[(True, cluster_ticket), (False, example_ticket), (True, cluster_ticket)]"]
  note changed = upsert_idempotent [where st = "(empty_store, GetNameResolver)"
      and lib = cluster_lib and api = recovering_service and t = cluster_ticket
      and t' = ?t' and okFirst = True and steps = "[]"]
  have "map c_tenant_id (rows_with_key (Key cluster_ticket)
          (fst (snd (processIssue cluster_lib recovering_service True ?st1 cluster_ticket))))
        = [Some (TenantID (fst (extractIssueData cluster_lib recovering_service (snd ?st1)
                                  cluster_ticket)))]"
    using same [THEN conjunct2] unfolding Let_def
    by (simp only: simp_thms list.map issue_row.simps)
  then have second: "map c_tenant_id (rows_with_key ''O11Y-9''
          (fst (snd (processIssue cluster_lib recovering_service True ?st1 cluster_ticket))))
        = [Some ''t-9'']"
    by (simp only: k nr1 cluster_ticket_second)
  have "map c_title (rows_with_key (Key cluster_ticket)
          (fst (snd (processIssue cluster_lib recovering_service True ?st1 ?t'))))
        = [Some (Fields_Summary ?t')]"
    using changed [THEN conjunct2] k(2) unfolding Let_def
    by (simp only: simp_thms list.map issue_row.simps)
  then have third: "map c_title (rows_with_key ''O11Y-9''
          (fst (snd (processIssue cluster_lib recovering_service True ?st1 ?t'))))
        = [Some ''[PROD] TiKV recovered'']"
    by (simp add: k(1))
  have fourth: "distinct (map c_id (t_issues (fst (snd (process_all cluster_lib
      recovering_service (empty_store, GetNameResolver)
      [(True, cluster_ticket), (False, example_ticket), (True, cluster_ticket)])))))"
    using same [THEN conjunct1] e by blast
  show ?thesis using cluster_ticket_first_row second third fourth by blast
qed

subsection \<open>What the patterns of the handlers match\<close>











subsection \<open>Environment filter\<close>

















text \<open>
  The filter of the component statistics does read the title column: the two filters
  part on a row whose title is not its alert signature, a row that ingestion never stores
  with the alert flag set.
\<close>

lemma component_env_reads_title:
  "component_envCondition ''prod'' (example_alert\<lparr>c_title := Some ''TiKV down''\<rparr>) = Some False
   \<and> signature_envCondition ''prod'' (example_alert\<lparr>c_title := Some ''TiKV down''\<rparr>) = Some True
   \<and> \<not> alert_rows_signed \<lparr>t_issues = [example_alert\<lparr>c_title := Some ''TiKV down''\<rparr>],
                             t_muted_issues = []\<rparr>"
  by (simp add: component_envCondition_def signature_envCondition_def sql_like_def
      example_alert_def to_lower_char_def alert_rows_signed_def)

subsection \<open>Incremental window\<close>

lemma sql_max_created_Max:
  assumes "rows \<noteq> []" and "\<forall>r \<in> set rows. c_created r \<noteq> None"
  shows "sql_max_created rows = Some (Max (set (map (the \<circ> c_created) rows)))"
proof -
  have mf: "List.map_filter c_created rows = map (the \<circ> c_created) rows"
    using assms(2) by (induction rows) (auto simp: List.map_filter_simps)
  from assms(1) obtain r rs where rows: "rows = r # rs" by (cases rows) auto
  show ?thesis
    unfolding sql_max_created_def mf
    by (simp add: rows Max.set_eq_fold del: set_simps)
qed

lemma created_times_map:
  assumes "\<forall>r \<in> set rows. created_time lib r \<noteq> None"
  shows "created_times lib rows = map (the \<circ> created_time lib) rows"
  unfolding created_times_def
  using assms by (induction rows) (auto simp: List.map_filter_simps)

lemma window_from_latest:
  assumes ne: "t_issues db \<noteq> []" and wf: "stamps_well_formed lib (t_issues db)"
  shows "IncrementalUpdate_window lib None None clock db
           = Inr (Max (set (created_times lib (t_issues db))) + 1, clock 0)"
proof -
  let ?rows = "t_issues db"
  let ?vs = "map (the \<circ> c_created) ?rows"
  from wf have some: "\<forall>r \<in> set ?rows. c_created r \<noteq> None"
    and parses: "\<forall>r \<in> set ?rows. created_time lib r \<noteq> None"
    and mono: "\<And>r r'. r \<in> set ?rows \<Longrightarrow> r' \<in> set ?rows \<Longrightarrow> c_created r \<le> c_created r'
                 \<Longrightarrow> created_time lib r \<le> created_time lib r'"
    by (auto simp: stamps_well_formed_def)
  have latest: "sql_max_created ?rows = Some (Max (set ?vs))"
    by (rule sql_max_created_Max [OF ne some])
  have "set ?vs \<noteq> {}" using ne by simp
  then have "Max (set ?vs) \<in> set ?vs" by (intro Max_in) simp_all
  then obtain rm where rm: "rm \<in> set ?rows" and rmv: "the (c_created rm) = Max (set ?vs)"
    by auto
  from rm some have crm: "c_created rm = Some (Max (set ?vs))" using rmv by (cases "c_created rm") auto
  from rm parses obtain tm where tm: "created_time lib rm = Some tm" by auto
  then have ptm: "time_Parse_stamp lib (strings_TrimSuffix (Max (set ?vs)) '' UTC'') = Some tm"
    using crm by (simp add: created_time_def)
  have le: "the (created_time lib r) \<le> tm" if r: "r \<in> set ?rows" for r
  proof -
    from r some obtain v where v: "c_created r = Some v" by auto
    then have "v \<in> set ?vs" using r by force
    then have "v \<le> Max (set ?vs)" by simp
    then have "c_created r \<le> c_created rm" using v crm by simp
    then have "created_time lib r \<le> created_time lib rm" by (rule mono [OF r rm])
    moreover from r parses obtain t where "created_time lib r = Some t" by auto
    ultimately show ?thesis using tm by simp
  qed
  have times: "created_times lib ?rows = map (the \<circ> created_time lib) ?rows"
    by (rule created_times_map [OF parses])
  have "Max (set (created_times lib ?rows)) = tm"
  proof (rule Max_eqI)
    show "finite (set (created_times lib ?rows))" by simp
    show "y \<le> tm" if "y \<in> set (created_times lib ?rows)" for y
      using that le by (auto simp: times)
    show "tm \<in> set (created_times lib ?rows)"
      using rm tm by (force simp: times)
  qed
  moreover have "IncrementalUpdate_window lib None None clock db = Inr (tm + 1, clock 0)"
    unfolding IncrementalUpdate_window_def latest by (simp only: option.case ptm)
  ultimately show ?thesis by simp
qed

text \<open>
  C7. When the connection test and the query succeed: with an empty store the window
  starts 30 days before the first reading of the clock and ends at the next reading; with
  a store whose greatest stamp parses it starts one second after the time of that stamp
  and ends at the reading of the clock; and when all stamps are well formed that time is
  the greatest stored creation time.
\<close>

theorem incremental_window:
  "(t_issues db = [] \<longrightarrow>
      IncrementalUpdate_window lib None None clock db = Inr (clock 0 - 30 * 86400, clock 1))
   \<and> (sql_max_created (t_issues db) = Some latest
        \<and> time_Parse_stamp lib (strings_TrimSuffix latest '' UTC'') = Some t \<longrightarrow>
      IncrementalUpdate_window lib None None clock db = Inr (t + 1, clock 0))
   \<and> (t_issues db \<noteq> [] \<and> stamps_well_formed lib (t_issues db) \<longrightarrow>
      IncrementalUpdate_window lib None None clock db
        = Inr (Max (set (created_times lib (t_issues db))) + 1, clock 0))"
  using window_from_latest [of db lib clock]
  by (simp add: IncrementalUpdate_window_def sql_max_created_def List.map_filter_simps)

lemma example_created_times:
  "created_time example_lib example_alert = Some 1736937045"
  "created_time example_lib
     (example_alert\<lparr>c_id := ''O11Y-2'', c_created := Some ''2025-01-10 08:00:00 UTC''\<rparr>)
     = Some 1736496000"
  by (simp_all add: created_time_def example_alert_def example_lib_def strings_TrimSuffix_def)

lemma two_alert_store_well_formed: "stamps_well_formed example_lib (t_issues two_alert_store)"
  unfolding stamps_well_formed_def two_alert_store_def
  by (simp add: example_created_times) (simp add: example_alert_def)

theorem incremental_window_witness:
  "IncrementalUpdate_window example_lib None None example_clock empty_store
     = Inr (1735408000, 1738000001)
   \<and> stamps_well_formed example_lib (t_issues two_alert_store)
   \<and> sql_max_created (t_issues two_alert_store) = Some ''2025-01-15 10:30:45 UTC''
   \<and> IncrementalUpdate_window example_lib None None example_clock two_alert_store
       = Inr (1736937046, 1738000000)"
proof -
  have latest: "sql_max_created (t_issues two_alert_store) = Some ''2025-01-15 10:30:45 UTC''"
    by (simp add: sql_max_created_def two_alert_store_def List.map_filter_simps example_alert_def)
  have parsed: "time_Parse_stamp example_lib
      (strings_TrimSuffix ''2025-01-15 10:30:45 UTC'' '' UTC'') = Some 1736937045"
    by (simp add: example_lib_def strings_TrimSuffix_def)
  show ?thesis
    using incremental_window [of empty_store example_lib example_clock]
      incremental_window [where db = two_alert_store and lib = example_lib
        and clock = example_clock and latest = "''2025-01-15 10:30:45 UTC''"
        and t = 1736937045]
      two_alert_store_well_formed latest parsed
    by (simp add: empty_store_def example_clock_def)
qed

end
